theory Spec2Isabelle
  imports Complex_Main
begin

section \<open>JavaScript values used by the agent\<close>

subsection \<open>Numbers\<close>

text \<open>
  A JavaScript \<^verbatim>\<open>number\<close> is an IEEE-754 binary64 value. Every finite one is a rational,
  so \<open>number\<close> is \<^typ>\<open>rat\<close> and each arithmetic operation is the exact operation followed by
  the rounding \<open>to_double\<close>: to the nearest value with a 53-bit significand, ties to the
  even significand. The exponent is searched over the whole binary64 range (2200 steps
  cover it), but overflow to \<^verbatim>\<open>Infinity\<close>, \<^verbatim>\<open>NaN\<close>, signed zero and gradual underflow are
  not represented: the amounts computed here (token counts, prices, costs) lie far inside the
  normal range.
\<close>

type_synonym number = rat

definition round_half_even :: "rat \<Rightarrow> int" where
  "round_half_even x =
     (let f = \<lfloor>x\<rfloor>; d = x - of_int f
      in if d < 1 / 2 then f else if 1 / 2 < d then f + 1 else if even f then f else f + 1)"

fun binary_exponent :: "nat \<Rightarrow> rat \<Rightarrow> int \<Rightarrow> int" where
  "binary_exponent 0 x e = e"
| "binary_exponent (Suc n) x e =
     (if 2 ^ 53 \<le> x then binary_exponent n (x / 2) (e + 1)
      else if x < 2 ^ 52 then binary_exponent n (x * 2) (e - 1)
      else e)"

definition to_double :: "rat \<Rightarrow> number" where
  "to_double x =
     (if x = 0 then 0
      else let e = binary_exponent 2200 \<bar>x\<bar> 0
           in of_int (round_half_even (x / (2 powi e))) * (2 powi e))"

definition js_add :: "number \<Rightarrow> number \<Rightarrow> number" where
  "js_add a b = to_double (a + b)"

definition js_mul :: "number \<Rightarrow> number \<Rightarrow> number" where
  "js_mul a b = to_double (a * b)"

definition js_div :: "number \<Rightarrow> number \<Rightarrow> number" where
  "js_div a b = to_double (a / b)"

subsection \<open>Strings\<close>

text \<open>
  Strings are byte lists. \<open>toLowerCase\<close> lowers the ASCII letters (the JavaScript method
  also lowers letters outside ASCII); \<open>js_includes\<close> is the substring test; \<open>decimal\<close> is what
  a template literal prints for a non-negative integer.
\<close>

definition toLowerCase :: "string \<Rightarrow> string" where
  "toLowerCase s =
     map (\<lambda>c. let n = (of_char c :: nat) in if 65 \<le> n \<and> n \<le> 90 then char_of (n + 32) else c) s"

fun starts_with :: "string \<Rightarrow> string \<Rightarrow> bool" where
  "starts_with s [] = True"
| "starts_with [] (c # t) = False"
| "starts_with (d # s) (c # t) = (d = c \<and> starts_with s t)"

fun js_includes :: "string \<Rightarrow> string \<Rightarrow> bool" where
  "js_includes [] t = (t = [])"
| "js_includes (c # s) t = (starts_with (c # s) t \<or> js_includes s t)"

fun decimal :: "nat \<Rightarrow> string" where
  "decimal n =
     (if n < 10 then [char_of (48 + n)] else decimal (n div 10) @ [char_of (48 + n mod 10)])"

declare decimal.simps [simp del]

subsection \<open>Errors\<close>

text \<open>
  A thrown value is a value of \<open>error\<close>; a function that can throw returns \<open>error + 'a\<close>
  with \<open>Inl\<close> the thrown value. All thrown values here are \<^verbatim>\<open>Error\<close> instances, so
  \<^verbatim>\<open>error instanceof Error ? error.message : String(error)\<close> is \<open>error_message\<close>.
\<close>

datatype error = Error string | TypeError string | SyntaxError string | ReferenceError string

fun error_message :: "error \<Rightarrow> string" where
  "error_message (Error m) = m"
| "error_message (TypeError m) = m"
| "error_message (SyntaxError m) = m"
| "error_message (ReferenceError m) = m"

section \<open>Interfaces\<close>

subsection \<open>Product, CartItem and Order (ecommerce.ts)\<close>

text \<open>
  Fields keep their names, except that \<^verbatim>\<open>id\<close> is \<open>product_id\<close>, \<open>order_id\<close> and
  \<open>call_id\<close> (\<open>id\<close> is the identity function of HOL).
\<close>

record Product =
  product_id :: number
  name :: string
  price :: number
  description :: "string option"
  category :: "string option"

record CartItem =
  productId :: number
  quantity :: number
  product :: "Product option"

record Order =
  order_id :: "string option"
  items :: "CartItem list"
  total :: number
  customerEmail :: "string option"
  status :: "string option"

text \<open>
  The body of an answer of the order endpoint, at the type the method is declared to return:
  the fields of an \<open>Order\<close> that the body carries. Spreading it over the local order
  replaces exactly those fields.
\<close>

record order_data =
  data_id :: "string option"
  data_items :: "CartItem list option"
  data_total :: "number option"
  data_customerEmail :: "string option"
  data_status :: "string option"

definition spread :: "Order \<Rightarrow> order_data \<Rightarrow> Order" where
  "spread order data =
     \<lparr> order_id = (case data_id data of Some i \<Rightarrow> Some i | None \<Rightarrow> order_id order),
       items = (case data_items data of Some l \<Rightarrow> l | None \<Rightarrow> items order),
       total = (case data_total data of Some t \<Rightarrow> t | None \<Rightarrow> total order),
       customerEmail =
         (case data_customerEmail data of Some m \<Rightarrow> Some m | None \<Rightarrow> customerEmail order),
       status = (case data_status data of Some x \<Rightarrow> Some x | None \<Rightarrow> status order) \<rparr>"

subsection \<open>ToolCall and Message (agent.ts)\<close>

text \<open>
  Tool-call arguments are the \<^verbatim>\<open>any\<close> value that \<open>executeTool\<close> receives, at the shape the
  tool schema of \<open>ecommerceTools\<close> declares: the four properties, each possibly absent. The
  \<open>items\<close> of \<^verbatim>\<open>place_order\<close> are a string or an array ("might be string or array depending
  on model"), or any other value (\<^verbatim>\<open>null\<close>, a number, a boolean, an object), which
  \<open>ItemsOther\<close> stands for. \<open>function_arguments\<close> of a tool call is a string or an object
  ("depending on the Ollama version"). The constant \<^verbatim>\<open>type: 'function'\<close> is left out.
\<close>

datatype items_arg = ItemsText string | ItemsArray "CartItem list" | ItemsOther

record tool_args =
  arg_query :: "string option"
  arg_productId :: "number option"
  arg_items :: "items_arg option"
  arg_customerEmail :: "string option"

datatype arguments = Text string | Structured tool_args

record ToolCall =
  call_id :: string
  function_name :: string
  function_arguments :: arguments

datatype role = System | User | Assistant | Tool

record Message =
  role :: role
  content :: string
  tool_calls :: "ToolCall list option"

subsection \<open>The outside world\<close>

text \<open>
  What \<^verbatim>\<open>fetch\<close> resolves to: \<open>ok\<close> and \<open>status_code\<close> of the response, and what
  \<^verbatim>\<open>response.json()\<close> gives (\<open>Inl\<close> when the body does not decode), at the type the
  calling method declares for it.
\<close>

record 'a response =
  ok :: bool
  status_code :: nat
  json :: "error + 'a"

text \<open>
  The reply of the model backend (the chat response of the \<^verbatim>\<open>ollama\<close> package); the message,
  its content, its tool calls and the two token counts may each be absent. Token counts are
  natural numbers.
\<close>

record reply =
  reply_content :: "string option"
  reply_tool_calls :: "ToolCall list option"

record chat_response =
  response_message :: "reply option"
  prompt_eval_count :: "nat option"
  eval_count :: "nat option"

text \<open>What \<^verbatim>\<open>JSON.stringify\<close> is applied to when a tool message is built.\<close>

datatype tool_result = Products "Product list" | ProductOrNull "Product option" | Placed Order

datatype payload = Output tool_result | Failure string string string

text \<open>
  Everything outside the two classes is a parameter: the model backend, the two endpoints
  of the store, the clock, and \<^verbatim>\<open>JSON.parse\<close> / \<^verbatim>\<open>JSON.stringify\<close>. The backends are
  arbitrary transitions on a state \<open>'w\<close> of the outside world, so they may answer
  differently at each call. \<^verbatim>\<open>console\<close> output and span attributes are not represented.

  \<open>JSON_parse_items\<close> is \<^verbatim>\<open>JSON.parse\<close> on the text of \<open>items\<close>: \<open>Inl\<close> when it throws,
  \<open>Inr (Some l)\<close> when the text is an array (its elements at the type \<open>CartItem\<close> that
  \<open>createOrder\<close> declares), and \<open>Inr None\<close> when the text is a value that cannot be
  iterated (\<^verbatim>\<open>null\<close>, a number, a boolean, an object). A text that is a JSON string, which
  \<^verbatim>\<open>for ... of\<close> would iterate by characters, has no place in an \<open>Order\<close> and is not
  represented.
\<close>

record 'w env =
  ollama_chat :: "Message list \<Rightarrow> 'w \<Rightarrow> (error + chat_response) \<times> 'w"
  fetch_products :: "'w \<Rightarrow> (error + Product list response) \<times> 'w"
  fetch_orders :: "Order \<Rightarrow> 'w \<Rightarrow> (error + order_data response) \<times> 'w"
  Date_now :: "'w \<Rightarrow> nat"
  JSON_parse_arguments :: "string \<Rightarrow> error + tool_args"
  JSON_parse_items :: "string \<Rightarrow> error + CartItem list option"
  JSON_stringify :: "payload \<Rightarrow> string"

section \<open>The ecommerce client (ecommerce.ts)\<close>

subsection \<open>getProducts\<close>

definition mock_products :: "Product list" where
  "mock_products =
     [ \<lparr> product_id = 1, name = ''Blue Shirt'', price = to_double (2999 / 100),
         description = None, category = Some ''clothing'' \<rparr>,
       \<lparr> product_id = 2, name = ''Red Pants'', price = to_double (4999 / 100),
         description = None, category = Some ''clothing'' \<rparr>,
       \<lparr> product_id = 3, name = ''Black Shoes'', price = to_double (7999 / 100),
         description = None, category = Some ''footwear'' \<rparr>,
       \<lparr> product_id = 4, name = ''White Hat'', price = to_double (1999 / 100),
         description = None, category = Some ''accessories'' \<rparr>,
       \<lparr> product_id = 5, name = ''Green Jacket'', price = to_double (9999 / 100),
         description = None, category = Some ''clothing'' \<rparr> ]"

text \<open>The \<^verbatim>\<open>try\<close> block of \<open>getProducts\<close>, then the method with its \<^verbatim>\<open>catch\<close>.\<close>

definition getProducts_try :: "'w env \<Rightarrow> 'w \<Rightarrow> (error + Product list) \<times> 'w" where
  "getProducts_try env w =
     (case fetch_products env w of
        (Inl e, w') \<Rightarrow> (Inl e, w')
      | (Inr response, w') \<Rightarrow>
          if \<not> ok response
          then (Inl (Error (''HTTP error! status: '' @ decimal (status_code response))), w')
          else (json response, w'))"

definition getProducts :: "'w env \<Rightarrow> 'w \<Rightarrow> (error + Product list) \<times> 'w" where
  "getProducts env w =
     (case getProducts_try env w of
        (Inr data, w') \<Rightarrow> (Inr data, w')
      | (Inl e, w') \<Rightarrow> (Inr mock_products, w'))"

subsection \<open>searchProducts and getProductById\<close>

definition searchProducts ::
  "'w env \<Rightarrow> string option \<Rightarrow> 'w \<Rightarrow> (error + Product list) \<times> 'w" where
  "searchProducts env query w =
     (case getProducts env w of
        (Inl e, w') \<Rightarrow> (Inl e, w')
      | (Inr allProducts, w') \<Rightarrow>
          (case query of
             None \<Rightarrow> (Inl (TypeError ''Cannot read properties of undefined''), w')
           | Some q \<Rightarrow>
               let lowerQuery = toLowerCase q
               in (Inr (filter (\<lambda>p. js_includes (toLowerCase (name p)) lowerQuery \<or>
                                   (case category p of
                                      None \<Rightarrow> False
                                    | Some c \<Rightarrow> c \<noteq> [] \<and> js_includes (toLowerCase c) lowerQuery))
                         allProducts), w')))"

definition getProductById ::
  "'w env \<Rightarrow> number option \<Rightarrow> 'w \<Rightarrow> (error + Product option) \<times> 'w" where
  "getProductById env pid w =
     (case getProducts env w of
        (Inl e, w') \<Rightarrow> (Inl e, w')
      | (Inr products, w') \<Rightarrow> (Inr (find (\<lambda>p. Some (product_id p) = pid) products), w'))"

subsection \<open>createOrder\<close>

text \<open>The loop \<^verbatim>\<open>for (const item of items)\<close> with \<open>t\<close> the running \<^verbatim>\<open>total\<close>.\<close>

fun order_total :: "Product list \<Rightarrow> number \<Rightarrow> CartItem list \<Rightarrow> number" where
  "order_total products t [] = t"
| "order_total products t (item # rest) =
     (case find (\<lambda>p. product_id p = productId item) products of
        Some p \<Rightarrow> order_total products (js_add t (js_mul (price p) (quantity item))) rest
      | None \<Rightarrow> order_total products t rest)"

text \<open>
  \<open>items\<close> is \<open>None\<close> when the caller passes a value that cannot be iterated
  (\<^verbatim>\<open>undefined\<close>, \<^verbatim>\<open>null\<close>, a number, a boolean, an object; the agent casts
  \<^verbatim>\<open>args.items\<close> from \<^verbatim>\<open>any\<close>): the loop throws, in the \<^verbatim>\<open>try\<close> block and again in
  the \<^verbatim>\<open>catch\<close>.
\<close>

definition createOrder_try ::
  "'w env \<Rightarrow> CartItem list option \<Rightarrow> string option \<Rightarrow> 'w \<Rightarrow> (error + Order) \<times> 'w" where
  "createOrder_try env its email w =
     (case getProducts env w of
        (Inl e, w1) \<Rightarrow> (Inl e, w1)
      | (Inr products, w1) \<Rightarrow>
          (case its of
             None \<Rightarrow> (Inl (TypeError ''items is not iterable''), w1)
           | Some l \<Rightarrow>
               let order = \<lparr> order_id = Some (''ORDER-'' @ decimal (Date_now env w1)),
                             items = l, total = order_total products 0 l,
                             customerEmail = email, status = Some ''pending'' \<rparr>
               in (case fetch_orders env order w1 of
                     (Inl e, w2) \<Rightarrow> (Inl e, w2)
                   | (Inr response, w2) \<Rightarrow>
                       if ok response
                       then (case json response of
                               Inl e \<Rightarrow> (Inl e, w2)
                             | Inr data \<Rightarrow> (Inr (spread order data), w2))
                       else (Inr order, w2))))"

definition createOrder ::
  "'w env \<Rightarrow> CartItem list option \<Rightarrow> string option \<Rightarrow> 'w \<Rightarrow> (error + Order) \<times> 'w" where
  "createOrder env its email w =
     (case createOrder_try env its email w of
        (Inr order, w') \<Rightarrow> (Inr order, w')
      | (Inl error, w') \<Rightarrow>
          (case getProducts env w' of
             (Inl e, w1) \<Rightarrow> (Inl e, w1)
           | (Inr products, w1) \<Rightarrow>
               (case its of
                  None \<Rightarrow> (Inl (TypeError ''items is not iterable''), w1)
                | Some l \<Rightarrow>
                    (Inr \<lparr> order_id = Some (''ORDER-'' @ decimal (Date_now env w1)),
                           items = l, total = order_total products 0 l,
                           customerEmail = email, status = Some ''pending'' \<rparr>, w1))))"

subsection \<open>The tool registry\<close>

text \<open>Name, description and required parameters of each entry of \<open>ecommerceTools\<close>.\<close>

record tool_descriptor =
  tool_name :: string
  tool_description :: string
  required :: "string list"

definition ecommerceTools :: "tool_descriptor list" where
  "ecommerceTools =
     [ \<lparr> tool_name = ''get_products'',
         tool_description = ''Get a list of all available products in the store'',
         required = [] \<rparr>,
       \<lparr> tool_name = ''search_products'',
         tool_description = ''Search for products by name or category'',
         required = [''query''] \<rparr>,
       \<lparr> tool_name = ''get_product_details'',
         tool_description = ''Get detailed information about a specific product by its ID'',
         required = [''productId''] \<rparr>,
       \<lparr> tool_name = ''place_order'',
         tool_description =
           ''Place an order with the specified items. Each item should have a productId and quantity.'',
         required = [''items''] \<rparr> ]"

section \<open>The agent (agent.ts)\<close>

subsection \<open>State\<close>

text \<open>
  The fields of an \<open>EcommerceAgent\<close> that its methods read or write, together with what
  the methods act on: the exceptions handed to \<^verbatim>\<open>Sentry.captureException\<close>, each with its
  \<^verbatim>\<open>component\<close> tag, and the state of the outside world.
\<close>

record 'w EcommerceAgent =
  enableCostTracking :: bool
  conversationHistory :: "Message list"
  totalConversationCost :: number
  captured :: "(string \<times> error) list"
  world :: 'w

record AgentConfig =
  model :: string
  config_enableCostTracking :: "bool option"

definition newline :: string where
  "newline = [CHR 0x0A]"

definition system_prompt :: string where
  "system_prompt =
     ''You are a helpful ecommerce shopping assistant. You can help users:'' @ newline @
     ''- Browse and search for products'' @ newline @
     ''- Get product details'' @ newline @
     ''- Place orders'' @ newline @
     newline @
     ''Available tools:'' @ newline @
     ''- get_products: Get all available products'' @ newline @
     ''- search_products: Search for products by name or category'' @ newline @
     ''- get_product_details: Get details about a specific product by ID'' @ newline @
     ''- place_order: Place an order with items (requires productId and quantity for each item)''
       @ newline @
     newline @
     ''Always be helpful, accurate, and confirm order details before placing them.''"

definition system_message :: Message where
  "system_message = \<lparr> role = System, content = system_prompt, tool_calls = None \<rparr>"

text \<open>
  The constructor; \<open>events\<close> and \<open>w\<close> are what Sentry has captured and the state of the
  outside world when the agent is created.
\<close>

definition constructor :: "AgentConfig \<Rightarrow> (string \<times> error) list \<Rightarrow> 'w \<Rightarrow> 'w EcommerceAgent" where
  "constructor config events w =
     \<lparr> enableCostTracking =
         (case config_enableCostTracking config of Some b \<Rightarrow> b | None \<Rightarrow> False),
       conversationHistory = [system_message],
       totalConversationCost = 0,
       captured = events,
       world = w \<rparr>"

definition push :: "Message \<Rightarrow> 'w EcommerceAgent \<Rightarrow> 'w EcommerceAgent" where
  "push m s = s\<lparr> conversationHistory := conversationHistory s @ [m] \<rparr>"

definition captureException :: "string \<Rightarrow> error \<Rightarrow> 'w EcommerceAgent \<Rightarrow> 'w EcommerceAgent" where
  "captureException component e s = s\<lparr> captured := captured s @ [(component, e)] \<rparr>"

subsection \<open>calculateCost\<close>

definition COST_PER_MILLION_INPUT :: number where
  "COST_PER_MILLION_INPUT = to_double (15 / 100)"

definition COST_PER_MILLION_OUTPUT :: number where
  "COST_PER_MILLION_OUTPUT = to_double (60 / 100)"

definition calculateCost :: "'w EcommerceAgent \<Rightarrow> number \<Rightarrow> number \<Rightarrow> number" where
  "calculateCost s inputTokens outputTokens =
     (if \<not> enableCostTracking s then 0
      else let inputCost = js_mul (js_div inputTokens 1000000) COST_PER_MILLION_INPUT;
               outputCost = js_mul (js_div outputTokens 1000000) COST_PER_MILLION_OUTPUT
           in js_add inputCost outputCost)"

subsection \<open>executeTool\<close>

text \<open>The \<^verbatim>\<open>switch\<close> inside the \<^verbatim>\<open>try\<close> block, on the outside world alone.\<close>

definition executeTool_try ::
  "'w env \<Rightarrow> string \<Rightarrow> tool_args \<Rightarrow> 'w \<Rightarrow> (error + tool_result) \<times> 'w" where
  "executeTool_try env toolName args w =
     (if toolName = ''get_products'' then
        (case getProducts env w of
           (Inl e, w') \<Rightarrow> (Inl e, w')
         | (Inr result, w') \<Rightarrow> (Inr (Products result), w'))
      else if toolName = ''search_products'' then
        (case searchProducts env (arg_query args) w of
           (Inl e, w') \<Rightarrow> (Inl e, w')
         | (Inr result, w') \<Rightarrow> (Inr (Products result), w'))
      else if toolName = ''get_product_details'' then
        (case getProductById env (arg_productId args) w of
           (Inl e, w') \<Rightarrow> (Inl e, w')
         | (Inr result, w') \<Rightarrow> (Inr (ProductOrNull result), w'))
      else if toolName = ''place_order'' then
        (let its = (case arg_items args of
                      Some (ItemsText text) \<Rightarrow>
                        (case JSON_parse_items env text of
                           Inr parsed \<Rightarrow> parsed
                         | Inl e \<Rightarrow> Some [])
                    | Some (ItemsArray l) \<Rightarrow> Some l
                    | Some ItemsOther \<Rightarrow> None
                    | None \<Rightarrow> None)
         in case createOrder env its (arg_customerEmail args) w of
              (Inl e, w') \<Rightarrow> (Inl e, w')
            | (Inr result, w') \<Rightarrow> (Inr (Placed result), w'))
      else (Inl (Error (''Unknown tool: '' @ toolName)), w))"

definition executeTool ::
  "'w env \<Rightarrow> string \<Rightarrow> tool_args \<Rightarrow> 'w EcommerceAgent \<Rightarrow> (error + tool_result) \<times> 'w EcommerceAgent" where
  "executeTool env toolName args s =
     (case executeTool_try env toolName args (world s) of
        (Inr result, w') \<Rightarrow> (Inr result, s\<lparr> world := w' \<rparr>)
      | (Inl e, w') \<Rightarrow> (Inl e, captureException ''tool_execution'' e (s\<lparr> world := w' \<rparr>)))"

subsection \<open>makeRequest\<close>

definition makeRequest ::
  "'w env \<Rightarrow> Message list \<Rightarrow> 'w EcommerceAgent \<Rightarrow> (error + chat_response) \<times> 'w EcommerceAgent" where
  "makeRequest env messages s =
     (case ollama_chat env messages (world s) of
        (Inr response, w') \<Rightarrow> (Inr response, s\<lparr> world := w' \<rparr>)
      | (Inl e, w') \<Rightarrow> (Inl e, captureException ''ollama_request'' e (s\<lparr> world := w' \<rparr>)))"

subsection \<open>chat\<close>

text \<open>
  The loop \<^verbatim>\<open>for (const toolCall of response.message.tool_calls)\<close>. The arguments are
  decoded outside the inner \<^verbatim>\<open>try\<close>, so a \<^verbatim>\<open>JSON.parse\<close> that throws leaves the
  loop (\<open>Some\<close> of the thrown value); whatever \<open>executeTool\<close> throws is caught and becomes a
  tool message.
\<close>

definition normalize_arguments :: "'w env \<Rightarrow> arguments \<Rightarrow> error + tool_args" where
  "normalize_arguments env a =
     (case a of Text text \<Rightarrow> JSON_parse_arguments env text | Structured toolArgs \<Rightarrow> Inr toolArgs)"

fun execute_tool_calls ::
  "'w env \<Rightarrow> ToolCall list \<Rightarrow> 'w EcommerceAgent \<Rightarrow> error option \<times> 'w EcommerceAgent" where
  "execute_tool_calls env [] s = (None, s)"
| "execute_tool_calls env (toolCall # rest) s =
     (let toolName = function_name toolCall
      in case normalize_arguments env (function_arguments toolCall) of
           Inl e \<Rightarrow> (Some e, s)
         | Inr toolArgs \<Rightarrow>
             (case executeTool env toolName toolArgs s of
                (Inr toolResult, s1) \<Rightarrow>
                  execute_tool_calls env rest
                    (push \<lparr> role = Tool, content = JSON_stringify env (Output toolResult),
                            tool_calls = None \<rparr> s1)
              | (Inl error, s1) \<Rightarrow>
                  execute_tool_calls env rest
                    (push \<lparr> role = Tool,
                            content = JSON_stringify env
                                        (Failure (error_message error) toolName ''failed''),
                            tool_calls = None \<rparr> s1)))"

text \<open>
  The variables of the \<^verbatim>\<open>while\<close> loop, and the three ways it is left: its condition
  fails, \<^verbatim>\<open>break\<close>, or something is thrown.
\<close>

record loop_vars =
  totalInputTokens :: nat
  totalOutputTokens :: nat
  finalResponse :: string
  iteration :: nat

datatype loop_exit = LimitReached | Break | Thrown error

definition maxIterations :: nat where
  "maxIterations = 10"

definition truthy_count :: "nat option \<Rightarrow> nat" where
  "truthy_count c = (case c of Some n \<Rightarrow> n | None \<Rightarrow> 0)"

definition requested_tool_calls :: "chat_response \<Rightarrow> ToolCall list" where
  "requested_tool_calls response =
     (case response_message response of
        None \<Rightarrow> []
      | Some m \<Rightarrow> (case reply_tool_calls m of None \<Rightarrow> [] | Some l \<Rightarrow> l))"

definition reply_text :: "chat_response \<Rightarrow> string" where
  "reply_text response =
     (case response_message response of
        None \<Rightarrow> []
      | Some m \<Rightarrow> (case reply_content m of None \<Rightarrow> [] | Some c \<Rightarrow> c))"

function chat_loop ::
  "'w env \<Rightarrow> loop_vars \<Rightarrow> 'w EcommerceAgent \<Rightarrow> (loop_exit \<times> loop_vars) \<times> 'w EcommerceAgent" where
  "chat_loop env v s =
     (if iteration v < maxIterations then
        (let v1 = v\<lparr> iteration := iteration v + 1 \<rparr>
         in case makeRequest env (conversationHistory s) s of
              (Inl e, s1) \<Rightarrow> ((Thrown e, v1), s1)
            | (Inr response, s1) \<Rightarrow>
                (let v2 = v1\<lparr> totalInputTokens :=
                                 totalInputTokens v1 + truthy_count (prompt_eval_count response),
                               totalOutputTokens :=
                                 totalOutputTokens v1 + truthy_count (eval_count response) \<rparr>
                 in if requested_tool_calls response \<noteq> [] then
                      (case execute_tool_calls env (requested_tool_calls response)
                              (push \<lparr> role = Assistant, content = reply_text response,
                                      tool_calls = Some (requested_tool_calls response) \<rparr> s1) of
                         (Some e, s2) \<Rightarrow> ((Thrown e, v2), s2)
                       | (None, s2) \<Rightarrow> chat_loop env v2 s2)
                    else
                      ((Break, v2\<lparr> finalResponse := reply_text response \<rparr>),
                       push \<lparr> role = Assistant, content = reply_text response,
                              tool_calls = None \<rparr> s1)))
      else ((LimitReached, v), s))"
  by pat_completeness auto

termination
  by (relation "measure (\<lambda>(env, v, s). maxIterations - iteration v)") auto

declare chat_loop.simps [simp del]

text \<open>
  \<open>chat\<close>: the \<^verbatim>\<open>try\<close> block, then the \<^verbatim>\<open>catch\<close>. The \<^verbatim>\<open>catch\<close> builds the context
  of \<^verbatim>\<open>Sentry.captureException\<close> from \<^verbatim>\<open>iteration\<close>, which is declared with
  \<^verbatim>\<open>let\<close> inside the \<^verbatim>\<open>try\<close> block and is not in scope there: evaluating the argument
  throws a \<^verbatim>\<open>ReferenceError\<close> before \<^verbatim>\<open>captureException\<close> is called, and that is what
  the caller receives in place of the original error.
\<close>

definition initial_vars :: loop_vars where
  "initial_vars =
     \<lparr> totalInputTokens = 0, totalOutputTokens = 0, finalResponse = [], iteration = 0 \<rparr>"

definition user_turn :: "string \<Rightarrow> Message" where
  "user_turn userMessage = \<lparr> role = User, content = userMessage, tool_calls = None \<rparr>"

definition chat ::
  "'w env \<Rightarrow> string \<Rightarrow> 'w EcommerceAgent \<Rightarrow> (error + string) \<times> 'w EcommerceAgent" where
  "chat env userMessage s =
     (case chat_loop env initial_vars (push (user_turn userMessage) s) of
        ((Thrown error, v), s') \<Rightarrow> (Inl (ReferenceError ''iteration is not defined''), s')
      | ((exit, v), s') \<Rightarrow>
          (let totalTokens = totalInputTokens v + totalOutputTokens v
           in (Inr (finalResponse v),
               if enableCostTracking s' \<and> totalTokens > 0
               then s'\<lparr> totalConversationCost :=
                          js_add (totalConversationCost s')
                            (calculateCost s' (of_nat (totalInputTokens v))
                               (of_nat (totalOutputTokens v))) \<rparr>
               else s')))"

subsection \<open>reset, getTotalCost, getHistory\<close>

text \<open>
  \<open>reset\<close> keeps element 0 of the history. The history is never empty (see
  \<open>reachable\<close> below); on an empty one JavaScript would keep \<^verbatim>\<open>undefined\<close>, for which
  \<open>conversationHistory s ! 0\<close> stands as an unspecified message.
\<close>

definition reset :: "'w EcommerceAgent \<Rightarrow> 'w EcommerceAgent" where
  "reset s = s\<lparr> conversationHistory := [conversationHistory s ! 0], totalConversationCost := 0 \<rparr>"

definition getTotalCost :: "'w EcommerceAgent \<Rightarrow> number" where
  "getTotalCost s = totalConversationCost s"

definition getHistory :: "'w EcommerceAgent \<Rightarrow> Message list" where
  "getHistory s = conversationHistory s"

text \<open>
  The states an agent can be in: after construction, after a \<open>chat\<close> (whether it returned
  or threw), after a \<open>reset\<close>, and after the outside world or the Sentry log moved on between
  two calls.
\<close>

inductive reachable :: "'w env \<Rightarrow> 'w EcommerceAgent \<Rightarrow> bool" for env :: "'w env" where
  reachable_constructor: "reachable env (constructor config events w)"
| reachable_chat: "reachable env s \<Longrightarrow> reachable env (snd (chat env userMessage s))"
| reachable_reset: "reachable env s \<Longrightarrow> reachable env (reset s)"
| reachable_world: "reachable env s \<Longrightarrow> reachable env (s\<lparr> captured := events, world := w \<rparr>)"

section \<open>Notions used in the statements\<close>

subsection \<open>One pass through the body of the loop\<close>

definition track :: "loop_vars \<Rightarrow> chat_response \<Rightarrow> loop_vars" where
  "track v response =
     v\<lparr> iteration := iteration v + 1,
        totalInputTokens := totalInputTokens v + truthy_count (prompt_eval_count response),
        totalOutputTokens := totalOutputTokens v + truthy_count (eval_count response) \<rparr>"

definition assistant_request :: "chat_response \<Rightarrow> Message" where
  "assistant_request response =
     \<lparr> role = Assistant, content = reply_text response,
       tool_calls = Some (requested_tool_calls response) \<rparr>"

definition assistant_final :: "chat_response \<Rightarrow> Message" where
  "assistant_final response =
     \<lparr> role = Assistant, content = reply_text response, tool_calls = None \<rparr>"

definition appended :: "'w EcommerceAgent \<Rightarrow> 'w EcommerceAgent \<Rightarrow> Message list \<Rightarrow> bool" where
  "appended s s' added \<longleftrightarrow>
     conversationHistory s' = conversationHistory s @ added
     \<and> enableCostTracking s' = enableCostTracking s
     \<and> totalConversationCost s' = totalConversationCost s"

definition seeded :: "'w EcommerceAgent \<Rightarrow> bool" where
  "seeded s \<longleftrightarrow>
     (\<exists>rest. conversationHistory s = system_message # rest \<and> (\<forall>m \<in> set rest. role m \<noteq> System))"

subsection \<open>Tool calls answered in order\<close>

text \<open>
  What the conversation is told about one tool call dispatched in world \<open>w\<close>: the result,
  or the failure record \<^verbatim>\<open>{error, tool, status: 'failed'}\<close>. \<open>answers\<close> pairs each request
  of a reply with what it is told, one request after the other, each in the world the previous
  one left; it stops at a request whose arguments do not decode.
\<close>

definition tool_outcome :: "'w env \<Rightarrow> string \<Rightarrow> tool_args \<Rightarrow> 'w \<Rightarrow> payload \<times> 'w" where
  "tool_outcome env toolName args w =
     (case executeTool_try env toolName args w of
        (Inr result, w') \<Rightarrow> (Output result, w')
      | (Inl e, w') \<Rightarrow> (Failure (error_message e) toolName ''failed'', w'))"

fun answers :: "'w env \<Rightarrow> ToolCall list \<Rightarrow> 'w \<Rightarrow> (ToolCall \<times> payload) list" where
  "answers env [] w = []"
| "answers env (c # cs) w =
     (case normalize_arguments env (function_arguments c) of
        Inl e \<Rightarrow> []
      | Inr a \<Rightarrow>
          (case tool_outcome env (function_name c) a w of
             (p, w') \<Rightarrow> (c, p) # answers env cs w'))"

definition tool_message :: "'w env \<Rightarrow> payload \<Rightarrow> Message" where
  "tool_message env p = \<lparr> role = Tool, content = JSON_stringify env p, tool_calls = None \<rparr>"

text \<open>What \<open>executeTool\<close> makes of what \<open>createOrder\<close> returns or throws.\<close>

definition placed :: "(error + Order) \<times> 'w \<Rightarrow> (error + tool_result) \<times> 'w" where
  "placed r = (case r of (Inl e, w') \<Rightarrow> (Inl e, w') | (Inr result, w') \<Rightarrow> (Inr (Placed result), w'))"

definition decodable :: "'w env \<Rightarrow> ToolCall \<Rightarrow> bool" where
  "decodable env c \<longleftrightarrow> (\<exists>a. normalize_arguments env (function_arguments c) = Inr a)"

subsection \<open>Model backends that never answer in plain text\<close>

definition always_requests_tools :: "'w env \<Rightarrow> bool" where
  "always_requests_tools env \<longleftrightarrow>
     (\<forall>messages w. \<exists>response w'.
        ollama_chat env messages w = (Inr response, w') \<and> requested_tool_calls response \<noteq> [])"

definition arguments_decode :: "'w env \<Rightarrow> bool" where
  "arguments_decode env \<longleftrightarrow>
     (\<forall>messages w response w'.
        ollama_chat env messages w = (Inr response, w') \<longrightarrow>
        (\<forall>c \<in> set (requested_tool_calls response). decodable env c))"

subsection \<open>The total of an order\<close>

text \<open>
  The prices times quantities of the items whose \<open>productId\<close> is in the catalog, in the
  order of the items, and their sum from the left in double arithmetic. \<open>local_order\<close> is the
  order \<open>createOrder\<close> builds from a catalog before it contacts the order endpoint.
\<close>

definition contributions :: "Product list \<Rightarrow> CartItem list \<Rightarrow> number list" where
  "contributions products l =
     List.map_filter
       (\<lambda>item. map_option (\<lambda>p. js_mul (price p) (quantity item))
                  (find (\<lambda>p. product_id p = productId item) products)) l"

definition resolved_total :: "Product list \<Rightarrow> CartItem list \<Rightarrow> number" where
  "resolved_total products l = foldl js_add 0 (contributions products l)"

definition local_order ::
  "'w env \<Rightarrow> Product list \<Rightarrow> CartItem list \<Rightarrow> string option \<Rightarrow> 'w \<Rightarrow> Order" where
  "local_order env products l email w =
     \<lparr> order_id = Some (''ORDER-'' @ decimal (Date_now env w)), items = l,
       total = resolved_total products l, customerEmail = email, status = Some ''pending'' \<rparr>"

section \<open>Example environments\<close>

text \<open>
  An outside world for the examples. Its state is the list of the histories the model backend
  has been sent so far; the backend's answer depends on how many that is. The two endpoints of
  the store answer the same at every call. \<open>example_parse_arguments\<close> and
  \<open>example_parse_items\<close> agree with \<^verbatim>\<open>JSON.parse\<close> on the texts the examples use:
  \<^verbatim>\<open>{}\<close>, \<^verbatim>\<open>[]\<close> and \<open>example_items_text\<close> decode to an object and to arrays, \<^verbatim>\<open>5\<close> and
  \<^verbatim>\<open>null\<close> decode to values that are not arrays, \<^verbatim>\<open>{\<close> and \<^verbatim>\<open>[\<close> do not decode.
  \<open>example_stringify\<close> stands for \<^verbatim>\<open>JSON.stringify\<close> and keeps the parts the examples look
  at.
\<close>

definition no_args :: tool_args where
  "no_args = \<lparr> arg_query = None, arg_productId = None, arg_items = None,
               arg_customerEmail = None \<rparr>"

definition example_parse_arguments :: "string \<Rightarrow> error + tool_args" where
  "example_parse_arguments text =
     (if text = ''{}'' then Inr no_args else Inl (SyntaxError ''Unexpected end of JSON input''))"

definition example_items :: "CartItem list" where
  "example_items =
     [ \<lparr> productId = 1, quantity = 2, product = None \<rparr>,
       \<lparr> productId = 2, quantity = 1, product = None \<rparr> ]"

text \<open>
  The text \<^verbatim>\<open>[{"productId":1,"quantity":2},{"productId":2,"quantity":1}]\<close>, written with
  \<^verbatim>\<open>#\<close> for the double quote.
\<close>

definition example_items_text :: string where
  "example_items_text =
     map (\<lambda>c. if c = CHR ''#'' then CHR 0x22 else c)
       ''[{#productId#:1,#quantity#:2},{#productId#:2,#quantity#:1}]''"

definition example_parse_items :: "string \<Rightarrow> error + CartItem list option" where
  "example_parse_items text =
     (if text = ''[]'' then Inr (Some [])
      else if text = example_items_text then Inr (Some example_items)
      else if text = ''5'' \<or> text = ''null'' then Inr None
      else Inl (SyntaxError ''Unexpected end of JSON input''))"

fun example_stringify :: "payload \<Rightarrow> string" where
  "example_stringify (Failure e t st) = ''error='' @ e @ '' tool='' @ t @ '' status='' @ st"
| "example_stringify (Output (Products l)) = ''products='' @ decimal (length l)"
| "example_stringify (Output (ProductOrNull None)) = ''null''"
| "example_stringify (Output (ProductOrNull (Some p))) = ''product='' @ name p"
| "example_stringify (Output (Placed order)) = ''order items='' @ decimal (length (items order))"

definition example_env ::
  "(nat \<Rightarrow> chat_response) \<Rightarrow> (error + Product list response) \<Rightarrow> (error + order_data response) \<Rightarrow>
     Message list list env" where
  "example_env backend catalog orders =
     \<lparr> ollama_chat = (\<lambda>messages w. (Inr (backend (length w)), w @ [messages])),
       fetch_products = (\<lambda>w. (catalog, w)),
       fetch_orders = (\<lambda>order w. (orders, w)),
       Date_now = (\<lambda>w. 1700000000000),
       JSON_parse_arguments = example_parse_arguments,
       JSON_parse_items = example_parse_items,
       JSON_stringify = example_stringify \<rparr>"

definition unreachable :: "error + 'a response" where
  "unreachable = Inl (TypeError ''fetch failed'')"

definition rejected :: "error + 'a response" where
  "rejected =
     Inr \<lparr> ok = False, status_code = 500, json = Inl (SyntaxError ''Unexpected token <'') \<rparr>"

definition accepted_total_zero :: "error + order_data response" where
  "accepted_total_zero =
     Inr \<lparr> ok = True, status_code = 200,
           json = Inr \<lparr> data_id = None, data_items = None, data_total = Some 0,
                        data_customerEmail = None, data_status = None \<rparr> \<rparr>"

definition tool_reply :: "string \<Rightarrow> ToolCall list \<Rightarrow> chat_response" where
  "tool_reply t calls =
     \<lparr> response_message = Some \<lparr> reply_content = Some t, reply_tool_calls = Some calls \<rparr>,
       prompt_eval_count = None, eval_count = None \<rparr>"

definition text_reply :: "string \<Rightarrow> chat_response" where
  "text_reply t =
     \<lparr> response_message = Some \<lparr> reply_content = Some t, reply_tool_calls = None \<rparr>,
       prompt_eval_count = None, eval_count = None \<rparr>"

definition call :: "string \<Rightarrow> arguments \<Rightarrow> ToolCall" where
  "call n a = \<lparr> call_id = ''call_0'', function_name = n, function_arguments = a \<rparr>"

definition example_agent :: "bool \<Rightarrow> Message list list EcommerceAgent" where
  "example_agent costs =
     constructor \<lparr> model = ''llama3.2'', config_enableCostTracking = Some costs \<rparr> [] []"

definition example_store :: "(error + order_data response) \<Rightarrow> Message list list env" where
  "example_store orders = example_env (\<lambda>n. text_reply ''Hello.'') unreachable orders"

text \<open>
  Backends: one that asks for \<open>get_products\<close> at every exchange, with the given arguments
  and some text; and scripted ones, which give the replies of a list in turn and then a last
  reply for ever.
\<close>

definition insistent_backend :: "arguments \<Rightarrow> nat \<Rightarrow> chat_response" where
  "insistent_backend a n = tool_reply ''Let me look that up.'' [call ''get_products'' a]"

definition insistent_env :: "arguments \<Rightarrow> Message list list env" where
  "insistent_env a = example_env (insistent_backend a) unreachable unreachable"

definition scripted :: "chat_response list \<Rightarrow> chat_response \<Rightarrow> nat \<Rightarrow> chat_response" where
  "scripted script final n = (if n < length script then script ! n else final)"

definition weather_env :: "Message list list env" where
  "weather_env =
     example_env
       (scripted [tool_reply [] [call ''get_weather'' (Structured no_args)]]
          (text_reply ''I cannot look up the weather.''))
       unreachable unreachable"

definition two_calls_env :: "Message list list env" where
  "two_calls_env =
     example_env
       (scripted [tool_reply [] [call ''get_weather'' (Structured no_args),
                                call ''get_products'' (Text ''{}'')]]
          (text_reply ''Here are the products.''))
       unreachable unreachable"

definition counted_env :: "Message list list env" where
  "counted_env =
     example_env
       (\<lambda>n. (text_reply ''Hello.'')\<lparr> prompt_eval_count := Some 1200, eval_count := Some 300 \<rparr>)
       unreachable unreachable"

section \<open>Properties of the double arithmetic\<close>

text \<open>
  \<open>to_double_eqI\<close> is how a rounding is computed below: \<open>x\<close> rounds to \<open>m / 2 ^ k\<close>
  when \<open>m\<close> is within a half of \<open>x * 2 ^ k\<close> and that product has 53 bits.
\<close>

lemma binary_exponent_scale:
  "0 < y \<Longrightarrow> 2 ^ 52 \<le> y * 2 ^ k \<Longrightarrow> y * 2 ^ k < 2 ^ 53 \<Longrightarrow> k \<le> n \<Longrightarrow>
     binary_exponent n y c = c - int k"
proof (induction k arbitrary: y c n)
  case 0
  then show ?case by (cases n) simp_all
next
  case (Suc k)
  then obtain n' where n: "n = Suc n'" "k \<le> n'" by (cases n) simp_all
  have "y * 2 < 2 ^ 53"
  proof -
    have "y * 2 * 1 \<le> y * 2 * 2 ^ k" using Suc.prems(1) by (intro mult_left_mono) simp_all
    also have "\<dots> = y * 2 ^ Suc k" by simp
    finally show ?thesis using Suc.prems(3) by simp
  qed
  then have small: "y < 2 ^ 52" by simp
  have "binary_exponent n' (y * 2) (c - 1) = (c - 1) - int k"
    using Suc.prems n(2) by (intro Suc.IH) (simp_all add: mult.assoc)
  with small n(1) show ?case by simp
qed

lemma round_half_even_eqI:
  assumes "\<bar>x - of_int m\<bar> < 1 / 2"
  shows "round_half_even x = m"
proof -
  have "\<lfloor>x\<rfloor> = m \<or> \<lfloor>x\<rfloor> = m - 1" using assms by linarith
  then show ?thesis
  proof
    assume f: "\<lfloor>x\<rfloor> = m"
    then have "x - of_int \<lfloor>x\<rfloor> < 1 / 2" using assms by linarith
    with f show ?thesis by (simp add: round_half_even_def Let_def)
  next
    assume f: "\<lfloor>x\<rfloor> = m - 1"
    then have "1 / 2 < x - of_int \<lfloor>x\<rfloor>" using assms by (simp add: abs_if split: if_splits)
    with f show ?thesis by (simp add: round_half_even_def Let_def)
  qed
qed

lemma to_double_eqI:
  assumes near: "\<bar>x * 2 ^ k - of_int m\<bar> < 1 / 2"
    and lo: "2 ^ 52 \<le> \<bar>x\<bar> * 2 ^ k" and hi: "\<bar>x\<bar> * 2 ^ k < 2 ^ 53" and k: "k \<le> 2200"
  shows "to_double x = of_int m / 2 ^ k"
proof -
  have nz: "x \<noteq> 0" using lo by auto
  then have "binary_exponent 2200 \<bar>x\<bar> 0 = 0 - int k"
    using lo hi k by (intro binary_exponent_scale) simp_all
  moreover have "(2::rat) powi (- int k) = 1 / 2 ^ k"
    by (simp add: power_int_minus field_simps)
  ultimately show ?thesis
    using nz round_half_even_eqI [OF near] by (simp add: to_double_def)
qed

lemma round_half_even_tieI:
  assumes "x = of_int f + 1 / 2"
  shows "round_half_even x = (if even f then f else f + 1)"
proof -
  have "\<lfloor>x\<rfloor> = f" using assms by linarith
  then show ?thesis using assms by (simp add: round_half_even_def Let_def)
qed

lemma to_double_tieI:
  assumes tie: "x * 2 ^ k = of_int f + 1 / 2"
    and lo: "2 ^ 52 \<le> \<bar>x\<bar> * 2 ^ k" and hi: "\<bar>x\<bar> * 2 ^ k < 2 ^ 53" and k: "k \<le> 2200"
  shows "to_double x = of_int (if even f then f else f + 1) / 2 ^ k"
proof -
  have nz: "x \<noteq> 0" using lo by auto
  then have "binary_exponent 2200 \<bar>x\<bar> 0 = 0 - int k"
    using lo hi k by (intro binary_exponent_scale) simp_all
  moreover have "(2::rat) powi (- int k) = 1 / 2 ^ k"
    by (simp add: power_int_minus field_simps)
  ultimately show ?thesis
    using nz round_half_even_tieI [OF tie] by (simp add: to_double_def)
qed

text \<open>
  A value to compare with any JavaScript console: \<^verbatim>\<open>0.1 + 0.2\<close> is
  0.30000000000000004, one unit in the last place above the double 0.3. The exact sum of the
  two doubles lies half way between two doubles and goes to the even one.
\<close>

lemma double_tenth_plus_fifth:
  "js_add (to_double (1 / 10)) (to_double (2 / 10)) = 5404319552844596 / 2 ^ 54"
  "to_double (3 / 10) = 5404319552844595 / 2 ^ 54"
proof -
  have a: "to_double (1 / 10) = 7205759403792794 / 2 ^ 56"
    using to_double_eqI [of "1 / 10" 56 7205759403792794] by simp
  have b: "to_double (2 / 10) = 7205759403792794 / 2 ^ 55"
    using to_double_eqI [of "2 / 10" 55 7205759403792794] by simp
  have c: "js_add (7205759403792794 / 2 ^ 56) (7205759403792794 / 2 ^ 55)
      = 5404319552844596 / 2 ^ 54"
    unfolding js_add_def
    using to_double_tieI [of "7205759403792794 / 2 ^ 56 + 7205759403792794 / 2 ^ 55" 54
        5404319552844595]
    by simp
  show "js_add (to_double (1 / 10)) (to_double (2 / 10)) = 5404319552844596 / 2 ^ 54"
    by (simp only: a b c)
  show "to_double (3 / 10) = 5404319552844595 / 2 ^ 54"
    using to_double_eqI [of "3 / 10" 54 5404319552844595] by simp
qed

lemma double_015: "to_double (15 / 100) = 5404319552844595 / 2 ^ 55"
  using to_double_eqI [of "15 / 100" 55 5404319552844595] by simp

lemma double_060: "to_double (60 / 100) = 5404319552844595 / 2 ^ 53"
  using to_double_eqI [of "60 / 100" 53 5404319552844595] by simp

lemma double_00036: "to_double (36 / 100000) = 6640827866535439 / 2 ^ 64"
  using to_double_eqI [of "36 / 100000" 64 6640827866535439] by simp

lemma double_10997: "to_double (10997 / 100) = 7738450797217710 / 2 ^ 46"
  using to_double_eqI [of "10997 / 100" 46 7738450797217710] by simp

lemma cost_1200_300:
  assumes "enableCostTracking s"
  shows "calculateCost s 1200 300 = 3320413933267719 / 2 ^ 63"
proof -
  have d1: "js_div 1200 1000000 = 5534023222112865 / 2 ^ 62"
    unfolding js_div_def using to_double_eqI [of "1200 / 1000000" 62 5534023222112865] by simp
  have d2: "js_div 300 1000000 = 5534023222112865 / 2 ^ 64"
    unfolding js_div_def using to_double_eqI [of "300 / 1000000" 64 5534023222112865] by simp
  have m1: "js_mul (5534023222112865 / 2 ^ 62) (5404319552844595 / 2 ^ 55) = 6640827866535438 / 2 ^ 65"
    unfolding js_mul_def
    using to_double_eqI [of "5534023222112865 / 2 ^ 62 * (5404319552844595 / 2 ^ 55)" 65 6640827866535438]
    by simp
  have m2: "js_mul (5534023222112865 / 2 ^ 64) (5404319552844595 / 2 ^ 53) = 6640827866535438 / 2 ^ 65"
    unfolding js_mul_def
    using to_double_eqI [of "5534023222112865 / 2 ^ 64 * (5404319552844595 / 2 ^ 53)" 65 6640827866535438]
    by simp
  have a: "js_add (6640827866535438 / 2 ^ 65) (6640827866535438 / 2 ^ 65) = 3320413933267719 / 2 ^ 63"
    unfolding js_add_def
    using to_double_eqI [of "6640827866535438 / 2 ^ 65 + 6640827866535438 / 2 ^ 65" 64 6640827866535438]
    by simp
  show ?thesis
    using assms
    by (simp only: calculateCost_def COST_PER_MILLION_INPUT_def COST_PER_MILLION_OUTPUT_def
          Let_def d1 d2 double_015 double_060 m1 m2 a not_True_eq_False if_False)
qed

lemma accumulate_cost_example:
  "js_add 0 (3320413933267719 / 9223372036854775808) = 3320413933267719 / 9223372036854775808"
  unfolding js_add_def
  using to_double_eqI [of "0 + 3320413933267719 / 9223372036854775808" 64 6640827866535438]
  by simp

lemma order_total_example: "order_total mock_products 0 example_items = to_double (10997 / 100)"
proof -
  have p1: "to_double (2999 / 100) = 8441434551552573 / 2 ^ 48"
    using to_double_eqI [of "2999 / 100" 48 8441434551552573] by simp
  have p2: "to_double (4999 / 100) = 7035467042882847 / 2 ^ 47"
    using to_double_eqI [of "4999 / 100" 47 7035467042882847] by simp
  have m1: "js_mul (8441434551552573 / 2 ^ 48) 2 = 8441434551552573 / 2 ^ 47"
    unfolding js_mul_def
    using to_double_eqI [of "8441434551552573 / 2 ^ 48 * 2" 47 8441434551552573] by simp
  have a1: "js_add 0 (8441434551552573 / 2 ^ 47) = 8441434551552573 / 2 ^ 47"
    unfolding js_add_def
    using to_double_eqI [of "0 + 8441434551552573 / 2 ^ 47" 47 8441434551552573] by simp
  have m2: "js_mul (7035467042882847 / 2 ^ 47) 1 = 7035467042882847 / 2 ^ 47"
    unfolding js_mul_def
    using to_double_eqI [of "7035467042882847 / 2 ^ 47 * 1" 47 7035467042882847] by simp
  have a2: "js_add (8441434551552573 / 2 ^ 47) (7035467042882847 / 2 ^ 47) = 7738450797217710 / 2 ^ 46"
    unfolding js_add_def
    using to_double_eqI [of "8441434551552573 / 2 ^ 47 + 7035467042882847 / 2 ^ 47" 46 7738450797217710]
    by simp
  have "order_total mock_products 0 example_items =
      js_add (js_add 0 (js_mul (to_double (2999 / 100)) 2)) (js_mul (to_double (4999 / 100)) 1)"
    by (simp add: mock_products_def example_items_def)
  also have "\<dots> = 7738450797217710 / 2 ^ 46"
    by (simp only: p1 p2 m1 a1 m2 a2)
  finally show ?thesis by (simp only: double_10997)
qed

section \<open>Properties of the ecommerce client\<close>

lemma order_total_resolved:
  "order_total products t l = foldl js_add t (contributions products l)"
  by (induction l arbitrary: t)
     (simp_all add: contributions_def List.map_filter_simps split: option.splits)

lemma getProducts_returns: "\<exists>products w'. getProducts env w = (Inr products, w')"
  by (auto simp: getProducts_def split: prod.splits sum.splits)

lemma createOrder_try_eq:
  assumes "getProducts env w = (Inr products, w1)"
  shows "createOrder_try env (Some l) email w =
     (case fetch_orders env (local_order env products l email w1) w1 of
        (Inl e, w2) \<Rightarrow> (Inl e, w2)
      | (Inr response, w2) \<Rightarrow>
          if ok response
          then (case json response of
                  Inl e \<Rightarrow> (Inl e, w2)
                | Inr data \<Rightarrow> (Inr (spread (local_order env products l email w1) data), w2))
          else (Inr (local_order env products l email w1), w2))"
  using assms
  by (auto simp: createOrder_try_def local_order_def resolved_total_def order_total_resolved Let_def
        split: prod.splits sum.splits)

lemma createOrder_catch:
  assumes "createOrder_try env (Some l) email w = (Inl e, w2)"
    and "getProducts env w2 = (Inr products', w3)"
  shows "createOrder env (Some l) email w = (Inr (local_order env products' l email w3), w3)"
  using assms
  by (simp add: createOrder_def local_order_def resolved_total_def order_total_resolved)

lemma createOrder_returns:
  "\<exists>order w'. createOrder env (Some l) email w = (Inr order, w')"
proof -
  obtain r w2 where t: "createOrder_try env (Some l) email w = (r, w2)"
    by (cases "createOrder_try env (Some l) email w")
  show ?thesis
  proof (cases r)
    case (Inr order)
    with t show ?thesis by (simp add: createOrder_def)
  next
    case (Inl e)
    obtain products' w3 where "getProducts env w2 = (Inr products', w3)"
      using getProducts_returns [of env w2] by auto
    with t Inl show ?thesis by (simp add: createOrder_catch)
  qed
qed

lemma createOrder_not_iterable:
  "\<exists>w'. createOrder env None email w = (Inl (TypeError ''items is not iterable''), w')"
proof -
  obtain products w1 where g: "getProducts env w = (Inr products, w1)"
    using getProducts_returns [of env w] by auto
  obtain products' w2 where g': "getProducts env w1 = (Inr products', w2)"
    using getProducts_returns [of env w1] by auto
  have "createOrder_try env None email w = (Inl (TypeError ''items is not iterable''), w1)"
    using g by (simp add: createOrder_try_def)
  with g' show ?thesis by (simp add: createOrder_def)
qed

section \<open>Properties of the agent\<close>

subsection \<open>executeTool and makeRequest\<close>

lemma push_simps [simp]:
  "conversationHistory (push m s) = conversationHistory s @ [m]"
  "enableCostTracking (push m s) = enableCostTracking s"
  "totalConversationCost (push m s) = totalConversationCost s"
  "captured (push m s) = captured s"
  "world (push m s) = world s"
  by (simp_all add: push_def)

lemma world_captureException [simp]:
  "world (captureException component e s) = world s"
  "conversationHistory (captureException component e s) = conversationHistory s"
  by (simp_all add: captureException_def)

lemma executeTool_agent:
  assumes "executeTool env toolName args s = (r, s')"
  shows "conversationHistory s' = conversationHistory s"
    and "enableCostTracking s' = enableCostTracking s"
    and "totalConversationCost s' = totalConversationCost s"
  using assms
  by (auto simp: executeTool_def captureException_def split: prod.splits sum.splits)

lemma makeRequest_agent:
  assumes "makeRequest env messages s = (r, s')"
  shows "conversationHistory s' = conversationHistory s"
    and "enableCostTracking s' = enableCostTracking s"
    and "totalConversationCost s' = totalConversationCost s"
  using assms
  by (auto simp: makeRequest_def captureException_def split: prod.splits sum.splits)

lemma executeTool_outcome:
  "world (snd (executeTool env toolName args s)) = snd (tool_outcome env toolName args (world s))"
  "(case fst (executeTool env toolName args s) of
      Inr result \<Rightarrow> Output result
    | Inl e \<Rightarrow> Failure (error_message e) toolName ''failed'')
     = fst (tool_outcome env toolName args (world s))"
  by (simp_all add: executeTool_def tool_outcome_def captureException_def
        split: prod.splits sum.splits)

lemma executeTool_try_unknown:
  assumes "toolName \<notin> set (map tool_name ecommerceTools)"
  shows "executeTool_try env toolName args w = (Inl (Error (''Unknown tool: '' @ toolName)), w)"
  using assms by (auto simp: ecommerceTools_def executeTool_try_def)

lemma place_order_items:
  "executeTool_try env ''place_order'' args w =
     placed (createOrder env
               (case arg_items args of
                  Some (ItemsText t) \<Rightarrow>
                    (case JSON_parse_items env t of Inr parsed \<Rightarrow> parsed | Inl e \<Rightarrow> Some [])
                | Some (ItemsArray l) \<Rightarrow> Some l
                | Some ItemsOther \<Rightarrow> None
                | None \<Rightarrow> None)
               (arg_customerEmail args) w)"
  by (simp add: executeTool_try_def placed_def)

subsection \<open>The loop over the tool calls\<close>

lemma execute_tool_calls_appends:
  "execute_tool_calls env calls s = (r, s') \<Longrightarrow>
     \<exists>added. conversationHistory s' = conversationHistory s @ added
       \<and> (\<forall>m \<in> set added. role m = Tool \<and> tool_calls m = None)
       \<and> (r = None \<longrightarrow> length added = length calls)
       \<and> enableCostTracking s' = enableCostTracking s
       \<and> totalConversationCost s' = totalConversationCost s"
proof (induction calls arbitrary: s)
  case Nil
  then show ?case by simp
next
  case (Cons toolCall rest)
  show ?case
  proof (cases "normalize_arguments env (function_arguments toolCall)")
    case (Inl e)
    with Cons.prems show ?thesis by auto
  next
    case (Inr toolArgs)
    obtain x s1 where ex: "executeTool env (function_name toolCall) toolArgs s = (x, s1)"
      by (cases "executeTool env (function_name toolCall) toolArgs s")
    define m where "m = (case x of
        Inr toolResult \<Rightarrow> \<lparr> role = Tool, content = JSON_stringify env (Output toolResult), tool_calls = None \<rparr>
      | Inl error \<Rightarrow> \<lparr> role = Tool, content = JSON_stringify env
            (Failure (error_message error) (function_name toolCall) ''failed''), tool_calls = None \<rparr>)"
    have step: "execute_tool_calls env rest (push m s1) = (r, s')"
      using Cons.prems Inr ex by (simp add: m_def split: sum.splits)
    have m: "role m = Tool" "tool_calls m = None"
      by (simp_all add: m_def split: sum.splits)
    from Cons.IH [OF step] obtain added where
      a: "conversationHistory s' = conversationHistory (push m s1) @ added"
         "\<forall>m \<in> set added. role m = Tool \<and> tool_calls m = None"
         "r = None \<longrightarrow> length added = length rest"
         "enableCostTracking s' = enableCostTracking (push m s1)"
         "totalConversationCost s' = totalConversationCost (push m s1)"
      by blast
    have "conversationHistory s' = conversationHistory s @ (m # added)"
      using a(1) executeTool_agent(1) [OF ex] by simp
    moreover have "\<forall>x \<in> set (m # added). role x = Tool \<and> tool_calls x = None"
      using a(2) m by simp
    moreover have "r = None \<longrightarrow> length (m # added) = length (toolCall # rest)"
      using a(3) by simp
    ultimately show ?thesis
      using a(4,5) executeTool_agent(2,3) [OF ex] by (metis push_simps(2,3))
  qed
qed

lemma execute_tool_calls_step:
  assumes "normalize_arguments env (function_arguments c) = Inr a"
  shows "execute_tool_calls env (c # rest) s =
     execute_tool_calls env rest
       (push (tool_message env (fst (tool_outcome env (function_name c) a (world s))))
          (snd (executeTool env (function_name c) a s)))"
  using assms
    executeTool_outcome(2) [where env = env and toolName = "function_name c" and args = a and s = s,
      symmetric]
  by (simp add: Let_def tool_message_def split: prod.splits sum.splits)

lemma execute_tool_calls_throws:
  assumes "normalize_arguments env (function_arguments c) = Inl e"
  shows "execute_tool_calls env (c # rest) s = (Some e, s)"
  using assms by simp

lemma execute_tool_calls_completes:
  "\<forall>c \<in> set calls. decodable env c \<Longrightarrow> fst (execute_tool_calls env calls s) = None"
proof (induction calls arbitrary: s)
  case Nil
  show ?case by simp
next
  case (Cons c rest)
  then obtain a where a: "normalize_arguments env (function_arguments c) = Inr a"
    by (auto simp: decodable_def)
  from Cons have "fst (execute_tool_calls env rest t) = None" for t by simp
  then show ?case by (simp only: execute_tool_calls_step [OF a])
qed

lemma execute_tool_calls_answers:
  "conversationHistory (snd (execute_tool_calls env calls s))
     = conversationHistory s @ map (tool_message env \<circ> snd) (answers env calls (world s))"
proof (induction calls arbitrary: s)
  case Nil
  show ?case by simp
next
  case (Cons c rest)
  show ?case
  proof (cases "normalize_arguments env (function_arguments c)")
    case (Inl e)
    then show ?thesis by simp
  next
    case (Inr a)
    obtain p w' where o: "tool_outcome env (function_name c) a (world s) = (p, w')"
      by (cases "tool_outcome env (function_name c) a (world s)")
    let ?s1 = "snd (executeTool env (function_name c) a s)"
    have w: "world ?s1 = w'"
      using executeTool_outcome(1) [of env "function_name c" a s] o by simp
    have h: "conversationHistory ?s1 = conversationHistory s"
      by (rule executeTool_agent(1) [of env "function_name c" a s "fst (executeTool env (function_name c) a s)"]) simp
    have "conversationHistory (snd (execute_tool_calls env (c # rest) s))
        = conversationHistory (push (tool_message env p) ?s1)
            @ map (tool_message env \<circ> snd) (answers env rest (world (push (tool_message env p) ?s1)))"
      using Cons.IH [of "push (tool_message env p) ?s1"] o
      by (simp only: execute_tool_calls_step [OF Inr] fst_conv)
    also have "\<dots> = conversationHistory s
        @ map (tool_message env \<circ> snd) (answers env (c # rest) (world s))"
      using Inr o w h by simp
    finally show ?thesis .
  qed
qed

lemma answers_all:
  "\<forall>c \<in> set calls. decodable env c \<Longrightarrow> map fst (answers env calls w) = calls"
proof (induction calls arbitrary: w)
  case Nil
  show ?case by simp
next
  case (Cons c rest)
  then obtain a where "normalize_arguments env (function_arguments c) = Inr a"
    by (auto simp: decodable_def)
  with Cons show ?case by (simp split: prod.splits)
qed

subsection \<open>The loop of chat\<close>

lemma maxIterations_10: "maxIterations = 10"
  by (simp add: maxIterations_def)

lemma chat_loop_limit:
  "\<not> iteration v < maxIterations \<Longrightarrow> chat_loop env v s = ((LimitReached, v), s)"
  by (simp add: chat_loop.simps)

lemma chat_loop_request_throws:
  "iteration v < maxIterations \<Longrightarrow> makeRequest env (conversationHistory s) s = (Inl e, s1) \<Longrightarrow>
     chat_loop env v s = ((Thrown e, v\<lparr> iteration := iteration v + 1 \<rparr>), s1)"
  by (subst chat_loop.simps) simp

lemma chat_loop_break:
  "iteration v < maxIterations \<Longrightarrow> makeRequest env (conversationHistory s) s = (Inr response, s1) \<Longrightarrow>
   requested_tool_calls response = [] \<Longrightarrow>
     chat_loop env v s =
       ((Break, (track v response)\<lparr> finalResponse := reply_text response \<rparr>),
        push (assistant_final response) s1)"
  by (subst chat_loop.simps) (simp add: track_def assistant_final_def)

lemma chat_loop_tool_throws:
  "iteration v < maxIterations \<Longrightarrow> makeRequest env (conversationHistory s) s = (Inr response, s1) \<Longrightarrow>
   requested_tool_calls response \<noteq> [] \<Longrightarrow>
   execute_tool_calls env (requested_tool_calls response) (push (assistant_request response) s1)
     = (Some e, s2) \<Longrightarrow>
     chat_loop env v s = ((Thrown e, track v response), s2)"
  by (subst chat_loop.simps) (simp add: track_def assistant_request_def)

lemma chat_loop_continue:
  "iteration v < maxIterations \<Longrightarrow> makeRequest env (conversationHistory s) s = (Inr response, s1) \<Longrightarrow>
   requested_tool_calls response \<noteq> [] \<Longrightarrow>
   execute_tool_calls env (requested_tool_calls response) (push (assistant_request response) s1)
     = (None, s2) \<Longrightarrow>
     chat_loop env v s = chat_loop env (track v response) s2"
  by (subst chat_loop.simps) (simp add: track_def assistant_request_def)

lemma track_simps [simp]:
  "iteration (track v response) = iteration v + 1"
  "finalResponse (track v response) = finalResponse v"
  by (simp_all add: track_def)

text \<open>One rule for every property of the loop that each way through its body keeps.\<close>

lemma chat_loop_cases [consumes 1, case_names limit request_throws break tool_throws continue]:
  assumes "chat_loop env v s = ((x, v'), s')"
  obtains
    (limit) "\<not> iteration v < maxIterations" "x = LimitReached" "v' = v" "s' = s"
  | (request_throws) e where "iteration v < maxIterations"
      "makeRequest env (conversationHistory s) s = (Inl e, s')"
      "x = Thrown e" "v' = v\<lparr> iteration := iteration v + 1 \<rparr>"
  | (break) response s1 where "iteration v < maxIterations"
      "makeRequest env (conversationHistory s) s = (Inr response, s1)"
      "requested_tool_calls response = []"
      "x = Break" "v' = (track v response)\<lparr> finalResponse := reply_text response \<rparr>"
      "s' = push (assistant_final response) s1"
  | (tool_throws) response s1 e where "iteration v < maxIterations"
      "makeRequest env (conversationHistory s) s = (Inr response, s1)"
      "requested_tool_calls response \<noteq> []"
      "execute_tool_calls env (requested_tool_calls response) (push (assistant_request response) s1)
         = (Some e, s')"
      "x = Thrown e" "v' = track v response"
  | (continue) response s1 s2 where "iteration v < maxIterations"
      "makeRequest env (conversationHistory s) s = (Inr response, s1)"
      "requested_tool_calls response \<noteq> []"
      "execute_tool_calls env (requested_tool_calls response) (push (assistant_request response) s1)
         = (None, s2)"
      "chat_loop env (track v response) s2 = ((x, v'), s')"
proof (cases "iteration v < maxIterations")
  case False
  from assms False have "x = LimitReached" "v' = v" "s' = s"
    by (simp_all add: chat_loop_limit)
  with False show ?thesis by (rule limit)
next
  case True
  obtain r s1 where mr: "makeRequest env (conversationHistory s) s = (r, s1)"
    by (cases "makeRequest env (conversationHistory s) s")
  show ?thesis
  proof (cases r)
    case (Inl e)
    from assms have "x = Thrown e" "v' = v\<lparr> iteration := iteration v + 1 \<rparr>" "s1 = s'"
      using chat_loop_request_throws [OF True mr [unfolded Inl]] by simp_all
    with True mr Inl show ?thesis by (intro request_throws [of e]) simp_all
  next
    case (Inr response)
    note mr' = mr [unfolded Inr]
    show ?thesis
    proof (cases "requested_tool_calls response = []")
      case True
      from assms have "x = Break"
          "v' = (track v response)\<lparr> finalResponse := reply_text response \<rparr>"
          "s' = push (assistant_final response) s1"
        using chat_loop_break [OF \<open>iteration v < maxIterations\<close> mr' True] by simp_all
      with \<open>iteration v < maxIterations\<close> mr' True show ?thesis
        by (intro break [of response s1]) simp_all
    next
      case False
      obtain t s2 where ex: "execute_tool_calls env (requested_tool_calls response)
          (push (assistant_request response) s1) = (t, s2)"
        by (cases "execute_tool_calls env (requested_tool_calls response)
          (push (assistant_request response) s1)")
      show ?thesis
      proof (cases t)
        case None
        from assms have "chat_loop env (track v response) s2 = ((x, v'), s')"
          using chat_loop_continue [OF True mr' False ex [unfolded None]] by simp
        with True mr' False ex None show ?thesis
          by (intro continue [of response s1 s2]) simp_all
      next
        case (Some e)
        from assms have "x = Thrown e" "v' = track v response" "s2 = s'"
          using chat_loop_tool_throws [OF True mr' False ex [unfolded Some]] by simp_all
        with True mr' False ex Some show ?thesis
          by (intro tool_throws [of response s1 e]) simp_all
      qed
    qed
  qed
qed

lemma assistant_roles [simp]:
  "role (assistant_request response) = Assistant"
  "role (assistant_final response) = Assistant"
  "tool_calls (assistant_request response) = Some (requested_tool_calls response)"
  "tool_calls (assistant_final response) = None"
  by (simp_all add: assistant_request_def assistant_final_def)

lemma chat_loop_appends:
  "chat_loop env v s = ((x, v'), s') \<Longrightarrow>
     \<exists>added. appended s s' added \<and> (\<forall>m \<in> set added. role m = Assistant \<or> role m = Tool)"
proof (induction "maxIterations - iteration v" arbitrary: v s)
  case 0
  then have "\<not> iteration v < maxIterations" by simp
  with 0 show ?case by (simp add: chat_loop_limit appended_def)
next
  case (Suc k)
  from Suc.prems show ?case
  proof (cases rule: chat_loop_cases)
    case limit
    then show ?thesis by (simp add: appended_def)
  next
    case (request_throws e)
    then show ?thesis
      using makeRequest_agent [OF request_throws(2)] by (simp add: appended_def)
  next
    case (break response s1)
    have "appended s s' [assistant_final response]"
      using makeRequest_agent [OF break(2)] break(6) by (simp add: appended_def)
    then show ?thesis by (intro exI [of _ "[assistant_final response]"]) simp
  next
    case (tool_throws response s1 e)
    from execute_tool_calls_appends [OF tool_throws(4)] obtain added where
      "conversationHistory s' = conversationHistory (push (assistant_request response) s1) @ added"
      "\<forall>m \<in> set added. role m = Tool \<and> tool_calls m = None"
      "enableCostTracking s' = enableCostTracking (push (assistant_request response) s1)"
      "totalConversationCost s' = totalConversationCost (push (assistant_request response) s1)"
      by blast
    then have "appended s s' (assistant_request response # added)"
      "\<forall>m \<in> set (assistant_request response # added). role m = Assistant \<or> role m = Tool"
      using makeRequest_agent [OF tool_throws(2)] by (simp_all add: appended_def)
    then show ?thesis by blast
  next
    case (continue response s1 s2)
    from execute_tool_calls_appends [OF continue(4)] obtain added where
      "conversationHistory s2 = conversationHistory (push (assistant_request response) s1) @ added"
      "\<forall>m \<in> set added. role m = Tool \<and> tool_calls m = None"
      "enableCostTracking s2 = enableCostTracking (push (assistant_request response) s1)"
      "totalConversationCost s2 = totalConversationCost (push (assistant_request response) s1)"
      by blast
    then have one: "appended s s2 (assistant_request response # added)"
      "\<forall>m \<in> set (assistant_request response # added). role m = Assistant \<or> role m = Tool"
      using makeRequest_agent [OF continue(2)] by (simp_all add: appended_def)
    have "k = maxIterations - iteration (track v response)"
      using Suc.hyps(2) by simp
    from Suc.hyps(1) [OF this continue(5)] obtain more where
      more: "appended s2 s' more" "\<forall>m \<in> set more. role m = Assistant \<or> role m = Tool"
      by blast
    have "appended s s' ((assistant_request response # added) @ more)"
      using one(1) more(1) by (simp add: appended_def)
    moreover have "\<forall>m \<in> set ((assistant_request response # added) @ more).
        role m = Assistant \<or> role m = Tool"
      using one(2) more(2) by auto
    ultimately show ?thesis by blast
  qed
qed

lemma chat_loop_iteration:
  "chat_loop env v s = ((x, v'), s') \<Longrightarrow> iteration v \<le> maxIterations \<Longrightarrow>
     iteration v \<le> iteration v' \<and> iteration v' \<le> maxIterations"
proof (induction "maxIterations - iteration v" arbitrary: v s)
  case 0
  then have "\<not> iteration v < maxIterations" by simp
  with 0 show ?case by (simp add: chat_loop_limit)
next
  case (Suc k)
  from Suc.prems(1) show ?case
  proof (cases rule: chat_loop_cases)
    case (continue response s1 s2)
    have "k = maxIterations - iteration (track v response)"
      using Suc.hyps(2) by simp
    from Suc.hyps(1) [OF this continue(5)] continue(1) show ?thesis by simp
  qed (use Suc.prems(2) in simp_all)
qed

lemma chat_loop_limit_reached:
  "chat_loop env v s = ((LimitReached, v'), s') \<Longrightarrow>
     finalResponse v' = finalResponse v
     \<and> maxIterations \<le> iteration v'
     \<and> (\<exists>added. conversationHistory s' = conversationHistory s @ added
           \<and> (\<forall>m \<in> set added. role m = Tool \<or> (role m = Assistant \<and> tool_calls m \<noteq> None))
           \<and> (iteration v < maxIterations \<longrightarrow> added \<noteq> [] \<and> role (last added) = Tool))"
proof (induction "maxIterations - iteration v" arbitrary: v s)
  case 0
  then have "\<not> iteration v < maxIterations" by simp
  with 0 show ?case by (simp add: chat_loop_limit)
next
  case (Suc k)
  from Suc.prems show ?case
  proof (cases rule: chat_loop_cases)
    case limit
    then show ?thesis by simp
  next
    case (continue response s1 s2)
    from execute_tool_calls_appends [OF continue(4)] obtain added where
      added: "conversationHistory s2 = conversationHistory (push (assistant_request response) s1) @ added"
      "\<forall>m \<in> set added. role m = Tool \<and> tool_calls m = None"
      "length added = length (requested_tool_calls response)"
      by blast
    have h2: "conversationHistory s2 = conversationHistory s @ assistant_request response # added"
      using added(1) makeRequest_agent(1) [OF continue(2)] by simp
    have ne: "added \<noteq> []" using added(3) continue(3) by auto
    then have last_tool: "role (last added) = Tool" using added(2) by simp
    have "k = maxIterations - iteration (track v response)"
      using Suc.hyps(2) by simp
    from Suc.hyps(1) [OF this continue(5)] obtain more where
      more: "finalResponse v' = finalResponse v" "maxIterations \<le> iteration v'"
        "conversationHistory s' = conversationHistory s2 @ more"
        "\<forall>m \<in> set more. role m = Tool \<or> (role m = Assistant \<and> tool_calls m \<noteq> None)"
        "iteration (track v response) < maxIterations \<longrightarrow> more \<noteq> [] \<and> role (last more) = Tool"
      by auto
    let ?all = "(assistant_request response # added) @ more"
    have "conversationHistory s' = conversationHistory s @ ?all"
      using h2 more(3) by simp
    moreover have "\<forall>m \<in> set ?all. role m = Tool \<or> (role m = Assistant \<and> tool_calls m \<noteq> None)"
      using added(2) more(4) by auto
    moreover have "?all \<noteq> [] \<and> role (last ?all) = Tool"
    proof (cases "more = []")
      case True
      then show ?thesis using ne last_tool by simp
    next
      case False
      then have "iteration (track v response) < maxIterations"
        using more(3) continue(5) chat_loop_limit [of "track v response" env s2] by auto
      with more(5) False show ?thesis by simp
    qed
    ultimately show ?thesis using more(1,2) by blast
  qed simp_all
qed

lemma chat_loop_reaches_limit:
  assumes "always_requests_tools env" "arguments_decode env"
  shows "fst (fst (chat_loop env v s)) = LimitReached"
proof (induction "maxIterations - iteration v" arbitrary: v s)
  case 0
  then have "\<not> iteration v < maxIterations" by simp
  then show ?case by (simp add: chat_loop_limit)
next
  case (Suc k)
  then have lt: "iteration v < maxIterations" by simp
  from assms(1) obtain response w' where
    r: "ollama_chat env (conversationHistory s) (world s) = (Inr response, w')"
      "requested_tool_calls response \<noteq> []"
    unfolding always_requests_tools_def by blast
  have mr: "makeRequest env (conversationHistory s) s = (Inr response, s\<lparr> world := w' \<rparr>)"
    using r(1) by (simp add: makeRequest_def)
  have "\<forall>c \<in> set (requested_tool_calls response). decodable env c"
    using assms(2) r(1) unfolding arguments_decode_def by blast
  from execute_tool_calls_completes [OF this]
  obtain s2 where ex: "execute_tool_calls env (requested_tool_calls response)
      (push (assistant_request response) (s\<lparr> world := w' \<rparr>)) = (None, s2)"
    by (metis prod.collapse)
  have "k = maxIterations - iteration (track v response)"
    using Suc.hyps(2) by simp
  from Suc.hyps(1) [OF this] show ?case
    by (simp add: chat_loop_continue [OF lt mr r(2) ex])
qed

lemma chat_appends:
  "\<exists>added. conversationHistory (snd (chat env userMessage s))
              = conversationHistory s @ user_turn userMessage # added
     \<and> (\<forall>m \<in> set added. role m = Assistant \<or> role m = Tool)"
proof -
  obtain x v s' where loop:
    "chat_loop env initial_vars (push (user_turn userMessage) s) = ((x, v), s')"
    by (metis surj_pair)
  from chat_loop_appends [OF loop] obtain added where
    added: "appended (push (user_turn userMessage) s) s' added"
      "\<forall>m \<in> set added. role m = Assistant \<or> role m = Tool"
    by blast
  have "conversationHistory (snd (chat env userMessage s)) = conversationHistory s'"
    using loop by (cases x) (simp_all add: chat_def Let_def)
  with added show ?thesis by (auto simp: appended_def)
qed

lemma reachable_seeded: "reachable env s \<Longrightarrow> seeded s"
proof (induction rule: reachable.induct)
  case (reachable_constructor config events w)
  show ?case by (simp add: seeded_def constructor_def)
next
  case (reachable_chat s userMessage)
  then obtain rest where rest: "conversationHistory s = system_message # rest"
    "\<forall>m \<in> set rest. role m \<noteq> System"
    by (auto simp: seeded_def)
  from chat_appends [of env userMessage s] obtain added where
    "conversationHistory (snd (chat env userMessage s))
       = conversationHistory s @ user_turn userMessage # added"
    "\<forall>m \<in> set added. role m = Assistant \<or> role m = Tool"
    by blast
  with rest have "conversationHistory (snd (chat env userMessage s))
      = system_message # (rest @ user_turn userMessage # added)"
    "\<forall>m \<in> set (rest @ user_turn userMessage # added). role m \<noteq> System"
    by (auto simp: user_turn_def)
  then show ?case unfolding seeded_def by blast
next
  case (reachable_reset s)
  then show ?case by (auto simp: seeded_def reset_def)
next
  case (reachable_world s events w)
  then show ?case by (simp add: seeded_def)
qed

section \<open>Example runs\<close>

lemmas run_defs = chat_def chat_loop.simps makeRequest_def executeTool_def executeTool_try_def
  normalize_arguments_def push_def captureException_def initial_vars_def user_turn_def
  maxIterations_def truthy_count_def requested_tool_calls_def reply_text_def
  example_env_def example_agent_def constructor_def tool_reply_def text_reply_def call_def
  scripted_def unreachable_def getProducts_def getProducts_try_def
  example_parse_arguments_def no_args_def Let_def

lemma counted_run:
  "chat counted_env ''Hi'' (example_agent True) =
     (Inr ''Hello.'',
      \<lparr> enableCostTracking = True,
        conversationHistory =
          [system_message, user_turn ''Hi'',
           \<lparr> role = Assistant, content = ''Hello.'', tool_calls = None \<rparr>],
        totalConversationCost = 3320413933267719 / 2 ^ 63,
        captured = [],
        world = [[system_message, user_turn ''Hi'']] \<rparr>)"
  by (simp add: run_defs counted_env_def cost_1200_300 accumulate_cost_example)

lemma insistent_always: "always_requests_tools (insistent_env a)"
  by (simp add: always_requests_tools_def insistent_env_def insistent_backend_def example_env_def
        tool_reply_def requested_tool_calls_def)

lemma insistent_decode: "arguments_decode (insistent_env (Text ''{}''))"
  by (simp add: arguments_decode_def insistent_env_def insistent_backend_def example_env_def
        tool_reply_def requested_tool_calls_def decodable_def call_def normalize_arguments_def
        example_parse_arguments_def)

lemma malformed_first_exchange:
  "chat_loop (insistent_env (Text ''{'')) initial_vars
      (push (user_turn ''Show me products'') (example_agent False))
   = ((Thrown (SyntaxError ''Unexpected end of JSON input''),
       track initial_vars (insistent_backend (Text ''{'') 0)),
      push (assistant_request (insistent_backend (Text ''{'') 0))
        ((push (user_turn ''Show me products'') (example_agent False))
           \<lparr> world := [conversationHistory (example_agent False) @ [user_turn ''Show me products'']] \<rparr>))"
proof -
  let ?s = "push (user_turn ''Show me products'') (example_agent False)"
  let ?r = "insistent_backend (Text ''{'') 0"
  have w: "world (example_agent False) = []"
    by (simp add: example_agent_def constructor_def)
  have mr: "makeRequest (insistent_env (Text ''{'')) (conversationHistory ?s) ?s
      = (Inr ?r, ?s\<lparr> world := [conversationHistory ?s] \<rparr>)"
    by (simp add: makeRequest_def insistent_env_def example_env_def w)
  have calls: "requested_tool_calls ?r = [call ''get_products'' (Text ''{'')]"
    by (simp add: insistent_backend_def tool_reply_def requested_tool_calls_def)
  have ex: "execute_tool_calls (insistent_env (Text ''{'')) (requested_tool_calls ?r)
      (push (assistant_request ?r) (?s\<lparr> world := [conversationHistory ?s] \<rparr>))
      = (Some (SyntaxError ''Unexpected end of JSON input''),
         push (assistant_request ?r) (?s\<lparr> world := [conversationHistory ?s] \<rparr>))"
    unfolding calls
    by (rule execute_tool_calls_throws)
       (simp add: call_def normalize_arguments_def insistent_env_def example_env_def
          example_parse_arguments_def)
  have lt: "iteration initial_vars < maxIterations"
    by (simp add: initial_vars_def maxIterations_def)
  show ?thesis
    using chat_loop_tool_throws [OF lt mr _ ex] calls by simp
qed

lemma insistent_run:
  "fst (chat (insistent_env (Text ''{}'')) ''Show me products'' (example_agent False)) = Inr []"
  "length (world (snd (chat (insistent_env (Text ''{}'')) ''Show me products''
      (example_agent False)))) = 10"
  "map role (conversationHistory (snd (chat (insistent_env (Text ''{}'')) ''Show me products''
      (example_agent False))))
     = [System, User, Assistant, Tool, Assistant, Tool, Assistant, Tool, Assistant, Tool,
        Assistant, Tool, Assistant, Tool, Assistant, Tool, Assistant, Tool, Assistant, Tool,
        Assistant, Tool]"
  by (simp_all add: run_defs insistent_env_def insistent_backend_def system_message_def)

lemma weather_not_registered: "''get_weather'' \<notin> set (map tool_name ecommerceTools)"
  by (simp add: ecommerceTools_def)

lemma two_calls_decodable:
  "\<forall>c \<in> set [call ''get_weather'' (Structured no_args), call ''get_products'' (Text ''{}'')].
     decodable two_calls_env c"
  by (simp add: decodable_def normalize_arguments_def call_def two_calls_env_def example_env_def
        example_parse_arguments_def)

lemma two_calls_answers:
  "answers two_calls_env
     [call ''get_weather'' (Structured no_args), call ''get_products'' (Text ''{}'')] w
   = [(call ''get_weather'' (Structured no_args),
       Failure ''Unknown tool: get_weather'' ''get_weather'' ''failed''),
      (call ''get_products'' (Text ''{}''), Output (Products mock_products))]"
  by (simp add: tool_outcome_def executeTool_try_def normalize_arguments_def call_def
        two_calls_env_def example_env_def example_parse_arguments_def getProducts_def
        getProducts_try_def unreachable_def)

section \<open>The claims\<close>

text \<open>
  C1 (as amended). Whatever the model backend does, one \<open>chat\<close> makes at most 10 model
  exchanges and ends. If the backend always returns tool-call requests, never a plain-text
  reply, and the arguments of the requests it returns decode, then \<open>chat\<close> makes exactly
  10 exchanges, leaves the loop at the limit and returns the empty text without throwing.
  (When arguments arrive as text that \<^verbatim>\<open>JSON.parse\<close> rejects, \<open>chat\<close> throws.)
\<close>

theorem chat_stops_at_iteration_limit:
  "(\<forall>x v s'. chat_loop env initial_vars (push (user_turn userMessage) s) = ((x, v), s') \<longrightarrow>
        iteration v \<le> 10)
   \<and> (always_requests_tools env \<and> arguments_decode env \<longrightarrow>
        (\<exists>v s'. chat_loop env initial_vars (push (user_turn userMessage) s) = ((LimitReached, v), s')
           \<and> iteration v = 10)
        \<and> fst (chat env userMessage s) = Inr [])"
proof (intro conjI allI impI)
  fix x v s'
  assume "chat_loop env initial_vars (push (user_turn userMessage) s) = ((x, v), s')"
  from chat_loop_iteration [OF this] show "iteration v \<le> 10"
    by (simp add: initial_vars_def maxIterations_10)
next
  assume h: "always_requests_tools env \<and> arguments_decode env"
  obtain x v s' where loop:
    "chat_loop env initial_vars (push (user_turn userMessage) s) = ((x, v), s')"
    by (metis surj_pair)
  have x: "x = LimitReached"
    using chat_loop_reaches_limit [of env initial_vars "push (user_turn userMessage) s"] h loop
    by simp
  from chat_loop_limit_reached [OF loop [unfolded x]] chat_loop_iteration [OF loop]
  have v: "iteration v = 10" "finalResponse v = []"
    by (simp_all add: initial_vars_def maxIterations_10)
  show "\<exists>v s'. chat_loop env initial_vars (push (user_turn userMessage) s) = ((LimitReached, v), s')
           \<and> iteration v = 10"
    using loop x v by blast
  show "fst (chat env userMessage s) = Inr []"
    using loop x v by (simp add: chat_def Let_def)
qed

theorem chat_stops_at_iteration_limit_witness:
  "always_requests_tools (insistent_env (Text ''{}''))
   \<and> arguments_decode (insistent_env (Text ''{}''))
   \<and> fst (chat (insistent_env (Text ''{}'')) ''Show me products'' (example_agent False)) = Inr []
   \<and> length (world (snd (chat (insistent_env (Text ''{}'')) ''Show me products''
         (example_agent False)))) = 10"
  using chat_stops_at_iteration_limit
      [of "insistent_env (Text ''{}'')" "''Show me products''" "example_agent False"]
    insistent_always insistent_decode insistent_run(2)
  by simp

theorem chat_throws_on_malformed_arguments_counterexample:
  "always_requests_tools (insistent_env (Text ''{''))
   \<and> isl (fst (chat (insistent_env (Text ''{'')) ''Show me products'' (example_agent False)))"
  using insistent_always [of "Text ''{''"]
  by (simp add: chat_def malformed_first_exchange)

text \<open>
  C2 (as amended). When the model requests a tool whose name is not in the tool registry,
  \<open>executeTool\<close> throws \<^verbatim>\<open>Error('Unknown tool: <name>')\<close> without calling any backend
  operation, after handing the error to Sentry. The loop of \<open>chat\<close> catches it: it appends
  a tool message made of \<^verbatim>\<open>{error, tool, status: 'failed'}\<close> and goes on with the next
  tool call, so the error becomes conversation data and does not leave \<open>chat\<close>.
\<close>

theorem unknown_tool_becomes_tool_message:
  assumes "toolName \<notin> set (map tool_name ecommerceTools)"
  shows "executeTool env toolName args s =
           (Inl (Error (''Unknown tool: '' @ toolName)),
            captureException ''tool_execution'' (Error (''Unknown tool: '' @ toolName)) s)
     \<and> world (snd (executeTool env toolName args s)) = world s
     \<and> (\<forall>c rest. function_name c = toolName
            \<and> normalize_arguments env (function_arguments c) = Inr args \<longrightarrow>
          execute_tool_calls env (c # rest) s =
            execute_tool_calls env rest
              (push (tool_message env (Failure (''Unknown tool: '' @ toolName) toolName ''failed''))
                 (captureException ''tool_execution'' (Error (''Unknown tool: '' @ toolName)) s)))"
proof -
  have e: "executeTool env toolName args s =
      (Inl (Error (''Unknown tool: '' @ toolName)),
       captureException ''tool_execution'' (Error (''Unknown tool: '' @ toolName)) s)"
    by (simp add: executeTool_def executeTool_try_unknown [OF assms])
  have o: "tool_outcome env toolName args (world s) =
      (Failure (''Unknown tool: '' @ toolName) toolName ''failed'', world s)"
    by (simp add: tool_outcome_def executeTool_try_unknown [OF assms])
  have "execute_tool_calls env (c # rest) s =
      execute_tool_calls env rest
        (push (tool_message env (Failure (''Unknown tool: '' @ toolName) toolName ''failed''))
           (captureException ''tool_execution'' (Error (''Unknown tool: '' @ toolName)) s))"
    if "function_name c = toolName" "normalize_arguments env (function_arguments c) = Inr args"
    for c rest
    using execute_tool_calls_step [OF that(2), of rest s] e o
    by (simp only: that(1) fst_conv snd_conv)
  with e show ?thesis by (simp del: execute_tool_calls.simps)
qed

theorem unknown_tool_becomes_tool_message_witness:
  "''get_weather'' \<notin> set (map tool_name ecommerceTools)
   \<and> normalize_arguments weather_env
        (function_arguments (call ''get_weather'' (Structured no_args))) = Inr no_args
   \<and> executeTool weather_env ''get_weather'' no_args (example_agent False) =
        (Inl (Error ''Unknown tool: get_weather''),
         captureException ''tool_execution'' (Error ''Unknown tool: get_weather'')
           (example_agent False))
   \<and> execute_tool_calls weather_env [call ''get_weather'' (Structured no_args)]
        (example_agent False) =
        (None,
         push (tool_message weather_env
                 (Failure ''Unknown tool: get_weather'' ''get_weather'' ''failed''))
           (captureException ''tool_execution'' (Error ''Unknown tool: get_weather'')
              (example_agent False)))"
proof -
  have n: "normalize_arguments weather_env
      (function_arguments (call ''get_weather'' (Structured no_args))) = Inr no_args"
    by (simp add: normalize_arguments_def call_def)
  have f: "function_name (call ''get_weather'' (Structured no_args)) = ''get_weather''"
    by (simp add: call_def)
  note t = unknown_tool_becomes_tool_message
    [OF weather_not_registered, of weather_env no_args "example_agent False"]
  from t have e: "executeTool weather_env ''get_weather'' no_args (example_agent False) =
      (Inl (Error ''Unknown tool: get_weather''),
       captureException ''tool_execution'' (Error ''Unknown tool: get_weather'')
         (example_agent False))"
    by (simp del: execute_tool_calls.simps)
  from t n f have "execute_tool_calls weather_env [call ''get_weather'' (Structured no_args)]
      (example_agent False) =
      execute_tool_calls weather_env []
        (push (tool_message weather_env
                (Failure (''Unknown tool: '' @ ''get_weather'') ''get_weather'' ''failed''))
          (captureException ''tool_execution'' (Error (''Unknown tool: '' @ ''get_weather''))
             (example_agent False)))"
    by blast
  then have "execute_tool_calls weather_env [call ''get_weather'' (Structured no_args)]
      (example_agent False) =
      (None,
       push (tool_message weather_env
               (Failure ''Unknown tool: get_weather'' ''get_weather'' ''failed''))
         (captureException ''tool_execution'' (Error ''Unknown tool: get_weather'')
            (example_agent False)))"
    by simp
  with weather_not_registered n e show ?thesis by (simp del: execute_tool_calls.simps)
qed

theorem unknown_tool_does_not_leave_chat_counterexample:
  "''get_weather'' \<notin> set (map tool_name ecommerceTools)
   \<and> fst (ollama_chat weather_env [system_message, user_turn ''What is the weather?''] [])
       = Inr (tool_reply [] [call ''get_weather'' (Structured no_args)])
   \<and> fst (chat weather_env ''What is the weather?'' (example_agent False))
       = Inr ''I cannot look up the weather.''
   \<and> conversationHistory (snd (chat weather_env ''What is the weather?'' (example_agent False))) ! 3
       = tool_message weather_env
           (Failure ''Unknown tool: get_weather'' ''get_weather'' ''failed'')
   \<and> captured (snd (chat weather_env ''What is the weather?'' (example_agent False)))
       = [(''tool_execution'', Error ''Unknown tool: get_weather'')]"
  using weather_not_registered
  by (simp add: run_defs weather_env_def tool_message_def)

text \<open>
  C3 (as amended). For all non-negative integer token counts \<open>calculateCost\<close> returns exactly
  0 when cost tracking is disabled. When it is enabled it returns
  \<^verbatim>\<open>(inputTokens / 1000000) * 0.15 + (outputTokens / 1000000) * 0.60\<close> evaluated in double
  arithmetic, each operation rounded; for 1200 and 300 tokens that is
  \<open>3320413933267719 / 2 ^ 63\<close> (printed 0.00035999999999999997), which is within \<open>1 / 10 ^ 19\<close>
  of 0.00036 but is not the double that the literal 0.00036 denotes.
\<close>

theorem calculateCost_gate_and_formula:
  "(\<not> enableCostTracking s \<longrightarrow> calculateCost s (of_nat i) (of_nat j) = 0)
   \<and> (enableCostTracking s \<longrightarrow>
        calculateCost s (of_nat i) (of_nat j)
          = js_add (js_mul (js_div (of_nat i) 1000000) (to_double (15 / 100)))
                   (js_mul (js_div (of_nat j) 1000000) (to_double (60 / 100)))
        \<and> calculateCost s 1200 300 = 3320413933267719 / 2 ^ 63
        \<and> \<bar>calculateCost s 1200 300 - 36 / 100000\<bar> < 1 / 10 ^ 19)"
proof (intro conjI impI)
  assume on: "enableCostTracking s"
  show "calculateCost s 1200 300 = 3320413933267719 / 2 ^ 63"
    by (rule cost_1200_300 [OF on])
  show "\<bar>calculateCost s 1200 300 - 36 / 100000\<bar> < 1 / 10 ^ 19"
    by (simp add: cost_1200_300 [OF on])
qed (simp_all add: calculateCost_def COST_PER_MILLION_INPUT_def COST_PER_MILLION_OUTPUT_def)

theorem calculateCost_gate_and_formula_witness:
  "\<not> enableCostTracking (example_agent False)
   \<and> calculateCost (example_agent False) 1200 300 = 0
   \<and> enableCostTracking (example_agent True)
   \<and> calculateCost (example_agent True) 1200 300 = 3320413933267719 / 2 ^ 63"
  using calculateCost_gate_and_formula [of "example_agent False" 1200 300]
    calculateCost_gate_and_formula [of "example_agent True" 1200 300]
  by (simp add: example_agent_def constructor_def)

theorem calculateCost_example_counterexample:
  "enableCostTracking (example_agent True)
   \<and> calculateCost (example_agent True) 1200 300 \<noteq> 36 / 100000
   \<and> calculateCost (example_agent True) 1200 300 \<noteq> to_double (36 / 100000)"
proof -
  have on: "enableCostTracking (example_agent True)"
    by (simp add: example_agent_def constructor_def)
  show ?thesis
    unfolding cost_1200_300 [OF on] double_00036 using on by simp
qed

text \<open>
  C4. The tool messages that one iteration of \<open>chat\<close> appends for a reply are the answers
  to the requests of the reply, one per request and in the order of the requests, each tool
  dispatched in the world the previous one left. When all arguments decode every request is
  answered, and the loop goes on, and so makes its next model exchange, from the history
  that ends with the assistant message followed by all these tool messages.
\<close>

theorem tool_results_in_request_order:
  "conversationHistory (snd (execute_tool_calls env calls s))
     = conversationHistory s @ map (tool_message env \<circ> snd) (answers env calls (world s))
   \<and> ((\<forall>c \<in> set calls. decodable env c) \<longrightarrow>
        fst (execute_tool_calls env calls s) = None
        \<and> map fst (answers env calls (world s)) = calls)
   \<and> (iteration v < maxIterations
        \<and> makeRequest env (conversationHistory s) s = (Inr response, s1)
        \<and> requested_tool_calls response = calls \<and> calls \<noteq> []
        \<and> (\<forall>c \<in> set calls. decodable env c) \<longrightarrow>
        (\<exists>s2. chat_loop env v s = chat_loop env (track v response) s2
           \<and> conversationHistory s2
               = conversationHistory s @ assistant_request response
                   # map (tool_message env \<circ> snd) (answers env calls (world s1))
           \<and> map fst (answers env calls (world s1)) = calls))"
proof (intro conjI impI)
  show "conversationHistory (snd (execute_tool_calls env calls s))
     = conversationHistory s @ map (tool_message env \<circ> snd) (answers env calls (world s))"
    by (rule execute_tool_calls_answers)
next
  assume "\<forall>c \<in> set calls. decodable env c"
  then show "fst (execute_tool_calls env calls s) = None"
    and "map fst (answers env calls (world s)) = calls"
    by (simp_all add: execute_tool_calls_completes answers_all)
next
  assume a: "iteration v < maxIterations
        \<and> makeRequest env (conversationHistory s) s = (Inr response, s1)
        \<and> requested_tool_calls response = calls \<and> calls \<noteq> []
        \<and> (\<forall>c \<in> set calls. decodable env c)"
  let ?s1 = "push (assistant_request response) s1"
  obtain s2 where ex: "execute_tool_calls env (requested_tool_calls response) ?s1 = (None, s2)"
    using a execute_tool_calls_completes [of calls env ?s1] by (metis prod.collapse)
  have "chat_loop env v s = chat_loop env (track v response) s2"
    using a ex by (intro chat_loop_continue) simp_all
  moreover have "conversationHistory s1 = conversationHistory s"
    using a makeRequest_agent(1) by blast
  then have "conversationHistory s2
      = conversationHistory s @ assistant_request response
          # map (tool_message env \<circ> snd) (answers env calls (world s1))"
    using execute_tool_calls_answers [of env calls ?s1] ex a by simp
  moreover have "map fst (answers env calls (world s1)) = calls"
    using a by (simp add: answers_all)
  ultimately show "\<exists>s2. chat_loop env v s = chat_loop env (track v response) s2
      \<and> conversationHistory s2
          = conversationHistory s @ assistant_request response
              # map (tool_message env \<circ> snd) (answers env calls (world s1))
      \<and> map fst (answers env calls (world s1)) = calls"
    by blast
qed

theorem tool_results_in_request_order_witness:
  "decodable two_calls_env (call ''get_weather'' (Structured no_args))
   \<and> decodable two_calls_env (call ''get_products'' (Text ''{}''))
   \<and> fst (execute_tool_calls two_calls_env
        [call ''get_weather'' (Structured no_args), call ''get_products'' (Text ''{}'')]
        (example_agent False)) = None
   \<and> conversationHistory (snd (execute_tool_calls two_calls_env
        [call ''get_weather'' (Structured no_args), call ''get_products'' (Text ''{}'')]
        (example_agent False)))
       = [system_message,
          tool_message two_calls_env
            (Failure ''Unknown tool: get_weather'' ''get_weather'' ''failed''),
          tool_message two_calls_env (Output (Products mock_products))]
   \<and> world (snd (chat two_calls_env ''Products and weather, please'' (example_agent False))) ! 1
       = [system_message, user_turn ''Products and weather, please'',
          assistant_request
            (tool_reply [] [call ''get_weather'' (Structured no_args),
                            call ''get_products'' (Text ''{}'')]),
          tool_message two_calls_env
            (Failure ''Unknown tool: get_weather'' ''get_weather'' ''failed''),
          tool_message two_calls_env (Output (Products mock_products))]"
proof -
  let ?calls = "[call ''get_weather'' (Structured no_args), call ''get_products'' (Text ''{}'')]"
  note t = tool_results_in_request_order [of two_calls_env ?calls "example_agent False"]
  have h: "conversationHistory (example_agent False) = [system_message]"
    by (simp add: example_agent_def constructor_def)
  have 1: "fst (execute_tool_calls two_calls_env ?calls (example_agent False)) = None"
    using t two_calls_decodable by blast
  have 2: "conversationHistory (snd (execute_tool_calls two_calls_env ?calls (example_agent False)))
      = [system_message,
         tool_message two_calls_env
           (Failure ''Unknown tool: get_weather'' ''get_weather'' ''failed''),
         tool_message two_calls_env (Output (Products mock_products))]"
    using t by (simp only: two_calls_answers h) simp
  have 3: "world (snd (chat two_calls_env ''Products and weather, please'' (example_agent False))) ! 1
       = [system_message, user_turn ''Products and weather, please'',
          assistant_request
            (tool_reply [] [call ''get_weather'' (Structured no_args),
                            call ''get_products'' (Text ''{}'')]),
          tool_message two_calls_env
            (Failure ''Unknown tool: get_weather'' ''get_weather'' ''failed''),
          tool_message two_calls_env (Output (Products mock_products))]"
    by (simp add: run_defs two_calls_env_def tool_message_def assistant_request_def
          system_message_def)
  from two_calls_decodable have "decodable two_calls_env (call ''get_weather'' (Structured no_args))"
    "decodable two_calls_env (call ''get_products'' (Text ''{}''))"
    by simp_all
  with 1 2 3 show ?thesis by (simp only: simp_thms)
qed

text \<open>
  C5. After \<open>reset\<close>, whatever the conversation and the cost accumulated before,
  \<open>getHistory\<close> is the one-element sequence holding the seed system message and
  \<open>getTotalCost\<close> is 0.
\<close>

theorem reset_restores_seed:
  assumes "reachable env s"
  shows "getHistory (reset s) = [system_message]
         \<and> length (getHistory (reset s)) = 1
         \<and> getTotalCost (reset s) = 0"
  using reachable_seeded [OF assms]
  by (auto simp: seeded_def reset_def getHistory_def getTotalCost_def)

theorem reset_restores_seed_witness:
  "reachable counted_env (snd (chat counted_env ''Hi'' (example_agent True)))
   \<and> length (getHistory (snd (chat counted_env ''Hi'' (example_agent True)))) = 3
   \<and> getTotalCost (snd (chat counted_env ''Hi'' (example_agent True))) = 3320413933267719 / 2 ^ 63
   \<and> getHistory (reset (snd (chat counted_env ''Hi'' (example_agent True)))) = [system_message]
   \<and> getTotalCost (reset (snd (chat counted_env ''Hi'' (example_agent True)))) = 0"
proof -
  have r: "reachable counted_env (snd (chat counted_env ''Hi'' (example_agent True)))"
    unfolding example_agent_def by (intro reachable_chat reachable_constructor)
  show ?thesis
    using r reset_restores_seed [OF r]
    by (simp add: counted_run getHistory_def getTotalCost_def)
qed

text \<open>
  C6. In every state an agent can reach (construction, then any chats, whether they return or
  throw, and resets) the history holds exactly one system message, it is the first message,
  and it is the message the constructor put there.
\<close>

theorem one_system_message_first:
  assumes "reachable env s"
  shows "\<exists>rest. conversationHistory s = system_message # rest
                \<and> (\<forall>m \<in> set rest. role m \<noteq> System)"
  using reachable_seeded [OF assms] by (simp add: seeded_def)

theorem one_system_message_first_witness:
  "reachable weather_env
     (snd (chat weather_env ''And tomorrow?''
        (reset (snd (chat weather_env ''What is the weather?'' (example_agent False))))))
   \<and> map role (conversationHistory
        (snd (chat weather_env ''And tomorrow?''
           (reset (snd (chat weather_env ''What is the weather?'' (example_agent False)))))))
       = [System, User, Assistant]
   \<and> conversationHistory
        (snd (chat weather_env ''And tomorrow?''
           (reset (snd (chat weather_env ''What is the weather?'' (example_agent False)))))) ! 0
       = system_message"
proof -
  let ?s = "snd (chat weather_env ''And tomorrow?''
    (reset (snd (chat weather_env ''What is the weather?'' (example_agent False)))))"
  have r: "reachable weather_env ?s"
    unfolding example_agent_def
    by (intro reachable_chat reachable_reset reachable_constructor)
  from one_system_message_first [OF r] obtain rest where
    rest: "conversationHistory ?s = system_message # rest" "\<forall>m \<in> set rest. role m \<noteq> System"
    by blast
  have "map role (conversationHistory ?s) = [System, User, Assistant]"
    by (simp add: run_defs weather_env_def reset_def system_message_def)
  with r rest show ?thesis by simp
qed

text \<open>
  C7. Arguments that arrive as text are decoded with \<^verbatim>\<open>JSON.parse\<close> before the tool is
  dispatched: \<open>executeTool\<close> runs on the decoded arguments and its outcome is what the
  conversation is told. For \<^verbatim>\<open>place_order\<close>, \<open>createOrder\<close> is called with the items
  themselves when they arrive as an array, and with the decoded array when they arrive as
  text. When the decoding of the items fails, \<open>createOrder\<close> is called with the empty list, and
  the tool returns the order so placed instead of failing. (Items text that decodes to a value
  that is not an array makes the tool fail with "items is not iterable".) When the decoding of
  the arguments themselves fails, nothing is dispatched (no tool runs, no tool message is
  appended, nothing is reported) and \<open>chat\<close> throws.
\<close>

theorem arguments_are_decoded_before_dispatch:
  "(function_arguments c = Text t \<and> JSON_parse_arguments env t = Inr a \<longrightarrow>
      execute_tool_calls env (c # rest) s
        = execute_tool_calls env (c\<lparr> function_arguments := Structured a \<rparr> # rest) s
      \<and> execute_tool_calls env (c # rest) s
        = execute_tool_calls env rest
            (push (tool_message env (fst (tool_outcome env (function_name c) a (world s))))
               (snd (executeTool env (function_name c) a s))))
   \<and> (arg_items args = Some (ItemsArray l) \<longrightarrow>
        executeTool_try env ''place_order'' args w
          = placed (createOrder env (Some l) (arg_customerEmail args) w))
   \<and> (arg_items args = Some (ItemsText t) \<and> JSON_parse_items env t = Inr (Some l) \<longrightarrow>
        executeTool_try env ''place_order'' args w
          = placed (createOrder env (Some l) (arg_customerEmail args) w)
        \<and> executeTool env ''place_order'' args s
          = executeTool env ''place_order'' (args\<lparr> arg_items := Some (ItemsArray l) \<rparr>) s)
   \<and> (arg_items args = Some (ItemsText t) \<and> JSON_parse_items env t = Inl e \<longrightarrow>
        executeTool_try env ''place_order'' args w
          = placed (createOrder env (Some []) (arg_customerEmail args) w)
        \<and> executeTool env ''place_order'' args s
          = executeTool env ''place_order'' (args\<lparr> arg_items := Some (ItemsArray []) \<rparr>) s
        \<and> (\<exists>order w'.
              createOrder env (Some []) (arg_customerEmail args) (world s) = (Inr order, w')
              \<and> executeTool env ''place_order'' args s = (Inr (Placed order), s\<lparr> world := w' \<rparr>)))
   \<and> (arg_items args = Some (ItemsText t) \<and> JSON_parse_items env t = Inr None \<longrightarrow>
        executeTool_try env ''place_order'' args w
          = placed (createOrder env None (arg_customerEmail args) w)
        \<and> fst (executeTool env ''place_order'' args s) = Inl (TypeError ''items is not iterable''))
   \<and> (function_arguments c = Text t \<and> JSON_parse_arguments env t = Inl e \<longrightarrow>
        execute_tool_calls env (c # rest) s = (Some e, s)
        \<and> (\<forall>response s1.
              makeRequest env (conversationHistory (push (user_turn userMessage) s0))
                (push (user_turn userMessage) s0) = (Inr response, s1)
              \<and> requested_tool_calls response = c # rest \<longrightarrow>
              isl (fst (chat env userMessage s0))
              \<and> conversationHistory (snd (chat env userMessage s0))
                  = conversationHistory s0 @ [user_turn userMessage, assistant_request response]))"
proof (intro conjI impI allI)
  assume a: "function_arguments c = Text t \<and> JSON_parse_arguments env t = Inr a"
  then show "execute_tool_calls env (c # rest) s
      = execute_tool_calls env (c\<lparr> function_arguments := Structured a \<rparr> # rest) s"
    by (simp add: normalize_arguments_def)
  from a have "normalize_arguments env (function_arguments c) = Inr a"
    by (simp add: normalize_arguments_def)
  then show "execute_tool_calls env (c # rest) s
      = execute_tool_calls env rest
          (push (tool_message env (fst (tool_outcome env (function_name c) a (world s))))
             (snd (executeTool env (function_name c) a s)))"
    by (rule execute_tool_calls_step)
next
  assume "arg_items args = Some (ItemsArray l)"
  then show "executeTool_try env ''place_order'' args w
      = placed (createOrder env (Some l) (arg_customerEmail args) w)"
    by (simp add: place_order_items)
next
  assume a: "arg_items args = Some (ItemsText t) \<and> JSON_parse_items env t = Inr (Some l)"
  then show "executeTool_try env ''place_order'' args w
      = placed (createOrder env (Some l) (arg_customerEmail args) w)"
    by (simp add: place_order_items)
  from a show "executeTool env ''place_order'' args s
      = executeTool env ''place_order'' (args\<lparr> arg_items := Some (ItemsArray l) \<rparr>) s"
    by (simp add: executeTool_def place_order_items)
next
  assume a: "arg_items args = Some (ItemsText t) \<and> JSON_parse_items env t = Inl e"
  then show "executeTool_try env ''place_order'' args w
      = placed (createOrder env (Some []) (arg_customerEmail args) w)"
    by (simp add: place_order_items)
  from a show "executeTool env ''place_order'' args s
      = executeTool env ''place_order'' (args\<lparr> arg_items := Some (ItemsArray []) \<rparr>) s"
    by (simp add: executeTool_def place_order_items)
  obtain order w' where o: "createOrder env (Some []) (arg_customerEmail args) (world s)
      = (Inr order, w')"
    using createOrder_returns [of env "[]" "arg_customerEmail args" "world s"] by auto
  with a have "executeTool env ''place_order'' args s = (Inr (Placed order), s\<lparr> world := w' \<rparr>)"
    by (simp add: executeTool_def place_order_items placed_def)
  with o show "\<exists>order w'.
      createOrder env (Some []) (arg_customerEmail args) (world s) = (Inr order, w')
      \<and> executeTool env ''place_order'' args s = (Inr (Placed order), s\<lparr> world := w' \<rparr>)"
    by blast
next
  assume a: "arg_items args = Some (ItemsText t) \<and> JSON_parse_items env t = Inr None"
  then show "executeTool_try env ''place_order'' args w
      = placed (createOrder env None (arg_customerEmail args) w)"
    by (simp add: place_order_items)
  obtain w' where "createOrder env None (arg_customerEmail args) (world s)
      = (Inl (TypeError ''items is not iterable''), w')"
    using createOrder_not_iterable [of env "arg_customerEmail args" "world s"] by auto
  with a show "fst (executeTool env ''place_order'' args s) = Inl (TypeError ''items is not iterable'')"
    by (simp add: executeTool_def place_order_items placed_def)
next
  assume a: "function_arguments c = Text t \<and> JSON_parse_arguments env t = Inl e"
  then show ex: "execute_tool_calls env (c # rest) s = (Some e, s)" for s
    by (simp add: normalize_arguments_def)
  fix response s1
  assume b: "makeRequest env (conversationHistory (push (user_turn userMessage) s0))
        (push (user_turn userMessage) s0) = (Inr response, s1)
      \<and> requested_tool_calls response = c # rest"
  have "chat_loop env initial_vars (push (user_turn userMessage) s0)
      = ((Thrown e, track initial_vars response), push (assistant_request response) s1)"
    using b ex [of "push (assistant_request response) s1"]
    by (intro chat_loop_tool_throws) (simp_all add: initial_vars_def maxIterations_def)
  then have "chat env userMessage s0
      = (Inl (ReferenceError ''iteration is not defined''), push (assistant_request response) s1)"
    by (simp add: chat_def)
  moreover have "conversationHistory s1 = conversationHistory (push (user_turn userMessage) s0)"
    using b makeRequest_agent(1) by blast
  ultimately show "isl (fst (chat env userMessage s0))"
    and "conversationHistory (snd (chat env userMessage s0))
      = conversationHistory s0 @ [user_turn userMessage, assistant_request response]"
    by simp_all
qed

theorem arguments_are_decoded_before_dispatch_witness:
  "JSON_parse_arguments (insistent_env (Text ''{}'')) ''{}'' = Inr no_args
   \<and> execute_tool_calls (insistent_env (Text ''{}'')) [call ''get_products'' (Text ''{}'')]
        (example_agent False)
       = execute_tool_calls (insistent_env (Text ''{}''))
           [call ''get_products'' (Structured no_args)] (example_agent False)
   \<and> conversationHistory (snd (execute_tool_calls (insistent_env (Text ''{}''))
        [call ''get_products'' (Text ''{}'')] (example_agent False)))
       = [system_message,
          tool_message (insistent_env (Text ''{}'')) (Output (Products mock_products))]
   \<and> JSON_parse_items (insistent_env (Text ''{}'')) example_items_text = Inr (Some example_items)
   \<and> fst (executeTool (insistent_env (Text ''{}'')) ''place_order''
             (no_args\<lparr> arg_items := Some (ItemsText example_items_text) \<rparr>) (example_agent False))
       = Inr (Placed \<lparr> order_id = Some (''ORDER-'' @ decimal 1700000000000),
                        items = example_items, total = to_double (10997 / 100),
                        customerEmail = None, status = Some ''pending'' \<rparr>)
   \<and> JSON_parse_items (insistent_env (Text ''{}'')) ''['' =
        Inl (SyntaxError ''Unexpected end of JSON input'')
   \<and> fst (executeTool (insistent_env (Text ''{}'')) ''place_order''
             (no_args\<lparr> arg_items := Some (ItemsText ''['') \<rparr>) (example_agent False))
       = Inr (Placed \<lparr> order_id = Some (''ORDER-'' @ decimal 1700000000000), items = [],
                        total = 0, customerEmail = None, status = Some ''pending'' \<rparr>)
   \<and> JSON_parse_items (insistent_env (Text ''{}'')) ''5'' = Inr None
   \<and> fst (executeTool (insistent_env (Text ''{}'')) ''place_order''
             (no_args\<lparr> arg_items := Some (ItemsText ''5'') \<rparr>) (example_agent False))
       = Inl (TypeError ''items is not iterable'')
   \<and> JSON_parse_arguments (insistent_env (Text ''{'')) ''{'' =
        Inl (SyntaxError ''Unexpected end of JSON input'')
   \<and> execute_tool_calls (insistent_env (Text ''{'')) [call ''get_products'' (Text ''{'')]
        (example_agent False)
       = (Some (SyntaxError ''Unexpected end of JSON input''), example_agent False)
   \<and> isl (fst (chat (insistent_env (Text ''{'')) ''Show me products'' (example_agent False)))"
proof -
  let ?good = "insistent_env (Text ''{}'')" and ?bad = "insistent_env (Text ''{'')"
  let ?A = "example_agent False"
  have p1: "JSON_parse_arguments ?good ''{}'' = Inr no_args"
    by (simp add: insistent_env_def example_env_def example_parse_arguments_def)
  have p2: "JSON_parse_items ?good ''['' = Inl (SyntaxError ''Unexpected end of JSON input'')"
    by (simp add: insistent_env_def example_env_def example_parse_items_def example_items_text_def)
  have p3: "JSON_parse_arguments ?bad ''{'' = Inl (SyntaxError ''Unexpected end of JSON input'')"
    by (simp add: insistent_env_def example_env_def example_parse_arguments_def)
  have p4: "JSON_parse_items ?good example_items_text = Inr (Some example_items)"
    by (simp add: insistent_env_def example_env_def example_parse_items_def example_items_text_def)
  have p5: "JSON_parse_items ?good ''5'' = Inr None"
    by (simp add: insistent_env_def example_env_def example_parse_items_def example_items_text_def)
  have c: "function_arguments (call ''get_products'' (Text x)) = Text x"
    "(call ''get_products'' (Text x))\<lparr> function_arguments := Structured no_args \<rparr>
       = call ''get_products'' (Structured no_args)"
    "function_name (call ''get_products'' (Text x)) = ''get_products''" for x
    by (simp_all add: call_def)
  have i: "arg_items (no_args\<lparr> arg_items := Some (ItemsText x) \<rparr>) = Some (ItemsText x)"
    "arg_customerEmail (no_args\<lparr> arg_items := Some (ItemsText x) \<rparr>) = None" for x
    by (simp_all add: no_args_def)
  have w: "world ?A = []"
    by (simp add: example_agent_def constructor_def)
  have g: "getProducts ?good [] = (Inr mock_products, [])"
    by (simp add: getProducts_def getProducts_try_def insistent_env_def example_env_def
          unreachable_def)
  have f: "fetch_orders ?good order [] = (Inl (TypeError ''fetch failed''), [])" for order
    by (simp add: insistent_env_def example_env_def unreachable_def)
  have d: "Date_now ?good [] = 1700000000000"
    by (simp add: insistent_env_def example_env_def)
  have co: "createOrder ?good (Some l) None [] = (Inr (local_order ?good mock_products l None []), [])"
    for l
  proof -
    have "createOrder_try ?good (Some l) None [] = (Inl (TypeError ''fetch failed''), [])"
      by (simp add: createOrder_try_eq [OF g] f)
    then show ?thesis by (rule createOrder_catch) (rule g)
  qed
  have lo: "local_order ?good mock_products example_items None []
      = \<lparr> order_id = Some (''ORDER-'' @ decimal 1700000000000), items = example_items,
          total = to_double (10997 / 100), customerEmail = None, status = Some ''pending'' \<rparr>"
    "local_order ?good mock_products [] None []
      = \<lparr> order_id = Some (''ORDER-'' @ decimal 1700000000000), items = [],
          total = 0, customerEmail = None, status = Some ''pending'' \<rparr>"
    using order_total_example
    by (simp_all add: local_order_def d resolved_total_def order_total_resolved contributions_def
          List.map_filter_simps)
  note t = arguments_are_decoded_before_dispatch
  have a1: "execute_tool_calls ?good [call ''get_products'' (Text ''{}'')] ?A
       = execute_tool_calls ?good [call ''get_products'' (Structured no_args)] ?A"
    using t [where c = "call ''get_products'' (Text ''{}'')" and t = "''{}''"
        and env = ?good and a = no_args and rest = "[]" and s = ?A,
        THEN conjunct1, THEN mp, THEN conjunct1] p1 c
    by (simp del: execute_tool_calls.simps)
  have a2: "execute_tool_calls ?good [call ''get_products'' (Text ''{}'')] ?A
       = execute_tool_calls ?good []
           (push (tool_message ?good (fst (tool_outcome ?good ''get_products'' no_args (world ?A))))
              (snd (executeTool ?good ''get_products'' no_args ?A)))"
    using t [where c = "call ''get_products'' (Text ''{}'')" and t = "''{}''"
        and env = ?good and a = no_args and rest = "[]" and s = ?A,
        THEN conjunct1, THEN mp, THEN conjunct2] p1 c
    by (simp del: execute_tool_calls.simps)
  have a': "conversationHistory (snd (execute_tool_calls ?good
        [call ''get_products'' (Text ''{}'')] ?A))
      = [system_message, tool_message ?good (Output (Products mock_products))]"
    unfolding a2
    by (simp add: tool_outcome_def executeTool_def executeTool_try_def g w example_agent_def
          constructor_def)
  have b1: "executeTool_try ?good ''place_order''
        (no_args\<lparr> arg_items := Some (ItemsText example_items_text) \<rparr>) []
      = placed (createOrder ?good (Some example_items) None [])"
    using t [where args = "no_args\<lparr> arg_items := Some (ItemsText example_items_text) \<rparr>"
        and t = example_items_text and env = ?good and l = example_items and w = "[]",
        THEN conjunct2, THEN conjunct2, THEN conjunct1] p4 i
    by (simp del: execute_tool_calls.simps)
  have b2: "executeTool_try ?good ''place_order''
        (no_args\<lparr> arg_items := Some (ItemsText ''['') \<rparr>) []
      = placed (createOrder ?good (Some []) None [])"
    using t [where args = "no_args\<lparr> arg_items := Some (ItemsText ''['') \<rparr>"
        and t = "''[''" and env = ?good and w = "[]"
        and e = "SyntaxError ''Unexpected end of JSON input''",
        THEN conjunct2, THEN conjunct2, THEN conjunct2, THEN conjunct1] p2 i
    by (simp del: execute_tool_calls.simps)
  have b3: "fst (executeTool ?good ''place_order''
        (no_args\<lparr> arg_items := Some (ItemsText ''5'') \<rparr>) ?A)
      = Inl (TypeError ''items is not iterable'')"
    using t [where args = "no_args\<lparr> arg_items := Some (ItemsText ''5'') \<rparr>"
        and t = "''5''" and env = ?good and s = ?A,
        THEN conjunct2, THEN conjunct2, THEN conjunct2, THEN conjunct2, THEN conjunct1] p5 i
    by (simp del: execute_tool_calls.simps)
  have e1: "fst (executeTool ?good ''place_order''
        (no_args\<lparr> arg_items := Some (ItemsText example_items_text) \<rparr>) ?A)
      = Inr (Placed \<lparr> order_id = Some (''ORDER-'' @ decimal 1700000000000),
                       items = example_items, total = to_double (10997 / 100),
                       customerEmail = None, status = Some ''pending'' \<rparr>)"
    by (simp only: executeTool_def w b1 co lo placed_def) simp
  have e2: "fst (executeTool ?good ''place_order''
        (no_args\<lparr> arg_items := Some (ItemsText ''['') \<rparr>) ?A)
      = Inr (Placed \<lparr> order_id = Some (''ORDER-'' @ decimal 1700000000000), items = [],
                       total = 0, customerEmail = None, status = Some ''pending'' \<rparr>)"
    by (simp only: executeTool_def w b2 co lo placed_def) simp
  have x: "execute_tool_calls ?bad [call ''get_products'' (Text ''{'')] ?A
       = (Some (SyntaxError ''Unexpected end of JSON input''), ?A)"
    using t [where c = "call ''get_products'' (Text ''{'')" and t = "''{''" and env = ?bad
        and e = "SyntaxError ''Unexpected end of JSON input''" and rest = "[]" and s = ?A,
        THEN conjunct2, THEN conjunct2, THEN conjunct2, THEN conjunct2, THEN conjunct2] p3 c
    by (simp del: execute_tool_calls.simps)
  have y: "isl (fst (chat ?bad ''Show me products'' ?A))"
    by (simp add: chat_def malformed_first_exchange)
  from p1 a1 a' p4 e1 p2 e2 p5 b3 p3 x y show ?thesis by (simp only: simp_thms)
qed

text \<open>
  C8. Whenever the product request fails, by a transport error or by a response that is not
  OK (or by a response whose body does not decode), \<open>getProducts\<close> does not throw and
  returns the fallback catalog, which has exactly 5 products.
\<close>

theorem getProducts_falls_back:
  assumes "fst (fetch_products env w) = Inl e
           \<or> (\<exists>response. fst (fetch_products env w) = Inr response \<and> \<not> ok response)
           \<or> (\<exists>response. fst (fetch_products env w) = Inr response \<and> json response = Inl e)"
  shows "fst (getProducts env w) = Inr mock_products \<and> length mock_products = 5"
  using assms
  by (auto simp: getProducts_def getProducts_try_def mock_products_def
        split: prod.splits sum.splits)

theorem getProducts_falls_back_witness:
  "fst (fetch_products (example_env (\<lambda>n. text_reply ''Hello.'') unreachable unreachable) [])
     = Inl (TypeError ''fetch failed'')
   \<and> fst (getProducts (example_env (\<lambda>n. text_reply ''Hello.'') unreachable unreachable) [])
       = Inr mock_products
   \<and> fst (fetch_products (example_env (\<lambda>n. text_reply ''Hello.'') rejected unreachable) [])
       = Inr \<lparr> ok = False, status_code = 500, json = Inl (SyntaxError ''Unexpected token <'') \<rparr>
   \<and> fst (getProducts (example_env (\<lambda>n. text_reply ''Hello.'') rejected unreachable) [])
       = Inr mock_products
   \<and> length mock_products = 5"
  using getProducts_falls_back
      [of "example_env (\<lambda>n. text_reply ''Hello.'') unreachable unreachable" "[]" "TypeError ''fetch failed''"]
    getProducts_falls_back
      [of "example_env (\<lambda>n. text_reply ''Hello.'') rejected unreachable" "[]" "TypeError ''fetch failed''"]
  by (simp add: example_env_def unreachable_def rejected_def)

text \<open>
  C9 (as amended). For every item list \<open>createOrder\<close> builds an order whose total is the
  sum, from the left in double arithmetic, of price times quantity over the items whose
  \<open>productId\<close> is in the catalog it has just fetched (an item that is not adds nothing), with
  status "pending". It returns that order when the order endpoint answers with a response that
  is not OK; when the request fails in transport, or an OK response has a body that does not
  decode, it returns the order rebuilt from a catalog fetched again; it never fails the caller.
  When the endpoint answers OK with a body, the fields of the body replace those of the local
  order, the total among them. Against the fallback catalog, 2 of product 1 (29.99) and 1 of
  product 2 (49.99) total 109.97.
\<close>

theorem createOrder_total:
  assumes "getProducts env w = (Inr products, w1)"
  shows "(\<forall>response w2.
            fetch_orders env (local_order env products l email w1) w1 = (Inr response, w2)
              \<and> \<not> ok response \<longrightarrow>
            createOrder env (Some l) email w = (Inr (local_order env products l email w1), w2))
       \<and> (\<forall>response w2 data.
            fetch_orders env (local_order env products l email w1) w1 = (Inr response, w2)
              \<and> ok response \<and> json response = Inr data \<longrightarrow>
            createOrder env (Some l) email w =
              (Inr (spread (local_order env products l email w1) data), w2))
       \<and> (\<forall>e w2 products' w3.
            (fetch_orders env (local_order env products l email w1) w1 = (Inl e, w2)
               \<or> (\<exists>response.
                     fetch_orders env (local_order env products l email w1) w1 = (Inr response, w2)
                       \<and> ok response \<and> json response = Inl e))
              \<and> getProducts env w2 = (Inr products', w3) \<longrightarrow>
            createOrder env (Some l) email w = (Inr (local_order env products' l email w3), w3))
       \<and> (\<exists>order w'. createOrder env (Some l) email w = (Inr order, w'))
       \<and> resolved_total mock_products example_items = to_double (10997 / 100)"
proof (intro conjI allI impI)
  fix response w2
  assume "fetch_orders env (local_order env products l email w1) w1 = (Inr response, w2)
    \<and> \<not> ok response"
  then show "createOrder env (Some l) email w = (Inr (local_order env products l email w1), w2)"
    by (simp add: createOrder_def createOrder_try_eq [OF assms])
next
  fix response w2 data
  assume "fetch_orders env (local_order env products l email w1) w1 = (Inr response, w2)
    \<and> ok response \<and> json response = Inr data"
  then show "createOrder env (Some l) email w =
      (Inr (spread (local_order env products l email w1) data), w2)"
    by (simp add: createOrder_def createOrder_try_eq [OF assms])
next
  fix e w2 products' w3
  assume a: "(fetch_orders env (local_order env products l email w1) w1 = (Inl e, w2)
       \<or> (\<exists>response.
             fetch_orders env (local_order env products l email w1) w1 = (Inr response, w2)
               \<and> ok response \<and> json response = Inl e))
      \<and> getProducts env w2 = (Inr products', w3)"
  then have "createOrder_try env (Some l) email w = (Inl e, w2)"
    by (auto simp: createOrder_try_eq [OF assms])
  with a show "createOrder env (Some l) email w = (Inr (local_order env products' l email w3), w3)"
    by (simp add: createOrder_catch)
next
  obtain r w2 where t: "createOrder_try env (Some l) email w = (r, w2)"
    by (cases "createOrder_try env (Some l) email w")
  show "\<exists>order w'. createOrder env (Some l) email w = (Inr order, w')"
  proof (cases r)
    case (Inr order)
    with t show ?thesis by (simp add: createOrder_def)
  next
    case (Inl e)
    obtain products' w3 where "getProducts env w2 = (Inr products', w3)"
      using getProducts_returns [of env w2] by auto
    with t Inl show ?thesis by (simp add: createOrder_catch)
  qed
next
  show "resolved_total mock_products example_items = to_double (10997 / 100)"
    using order_total_example by (simp add: resolved_total_def order_total_resolved)
qed

theorem createOrder_total_witness:
  "getProducts (example_store unreachable) [] = (Inr mock_products, [])
   \<and> createOrder (example_store unreachable) (Some example_items) (Some ''x@y.com'') []
       = (Inr (local_order (example_store unreachable) mock_products example_items
                 (Some ''x@y.com'') []), [])
   \<and> createOrder (example_store rejected) (Some example_items) (Some ''x@y.com'') []
       = (Inr (local_order (example_store rejected) mock_products example_items
                 (Some ''x@y.com'') []), [])
   \<and> total (local_order (example_store unreachable) mock_products example_items
              (Some ''x@y.com'') []) = to_double (10997 / 100)
   \<and> status (local_order (example_store unreachable) mock_products example_items
               (Some ''x@y.com'') []) = Some ''pending''
   \<and> map_sum error_message total
        (fst (createOrder (example_store accepted_total_zero) (Some example_items)
                (Some ''x@y.com'') [])) = Inr 0"
proof -
  have g: "getProducts (example_store orders) [] = (Inr mock_products, [])" for orders
    by (simp add: getProducts_def getProducts_try_def example_store_def example_env_def
          unreachable_def)
  have f1: "fetch_orders (example_store unreachable) order [] = (Inl (TypeError ''fetch failed''), [])"
    for order
    by (simp add: example_store_def example_env_def unreachable_def)
  have f2: "fetch_orders (example_store rejected) order []
      = (Inr \<lparr> ok = False, status_code = 500, json = Inl (SyntaxError ''Unexpected token <'') \<rparr>, [])"
    for order
    by (simp add: example_store_def example_env_def rejected_def)
  have f3: "fetch_orders (example_store accepted_total_zero) order []
      = (Inr \<lparr> ok = True, status_code = 200,
           json = Inr \<lparr> data_id = None, data_items = None, data_total = Some 0,
                        data_customerEmail = None, data_status = None \<rparr> \<rparr>, [])"
    for order
    by (simp add: example_store_def example_env_def accepted_total_zero_def)
  note t1 = createOrder_total [OF g, of unreachable example_items "Some ''x@y.com''"]
  note t2 = createOrder_total [OF g, of rejected example_items "Some ''x@y.com''"]
  note t3 = createOrder_total [OF g, of accepted_total_zero example_items "Some ''x@y.com''"]
  have c1: "createOrder (example_store unreachable) (Some example_items) (Some ''x@y.com'') []
       = (Inr (local_order (example_store unreachable) mock_products example_items
                 (Some ''x@y.com'') []), [])"
    using t1 f1 g by blast
  have c2: "createOrder (example_store rejected) (Some example_items) (Some ''x@y.com'') []
       = (Inr (local_order (example_store rejected) mock_products example_items
                 (Some ''x@y.com'') []), [])"
    using t2 f2 by simp
  have c3: "createOrder (example_store accepted_total_zero) (Some example_items) (Some ''x@y.com'') []
       = (Inr (spread (local_order (example_store accepted_total_zero) mock_products example_items
                 (Some ''x@y.com'') [])
            \<lparr> data_id = None, data_items = None, data_total = Some 0,
              data_customerEmail = None, data_status = None \<rparr>), [])"
    using t3 f3 by simp
  have "resolved_total mock_products example_items = to_double (10997 / 100)"
    using t1 by simp
  then show ?thesis
    using g c1 c2 c3 by (simp add: local_order_def spread_def)
qed

theorem createOrder_total_counterexample:
  "map_sum error_message total
     (fst (createOrder (example_store accepted_total_zero) (Some example_items)
             (Some ''x@y.com'') [])) = Inr 0
   \<and> resolved_total mock_products example_items = 7738450797217710 / 2 ^ 46"
proof -
  have g: "getProducts (example_store accepted_total_zero) [] = (Inr mock_products, [])"
    by (simp add: getProducts_def getProducts_try_def example_store_def example_env_def
          unreachable_def)
  have "createOrder_try (example_store accepted_total_zero) (Some example_items) (Some ''x@y.com'') []
      = (Inr (spread (local_order (example_store accepted_total_zero) mock_products example_items
                 (Some ''x@y.com'') [])
            \<lparr> data_id = None, data_items = None, data_total = Some 0,
              data_customerEmail = None, data_status = None \<rparr>), [])"
    by (simp add: createOrder_try_eq [OF g])
       (simp add: example_store_def example_env_def accepted_total_zero_def)
  then show ?thesis
    using order_total_example
    by (simp add: createOrder_def spread_def resolved_total_def
          order_total_resolved double_10997)
qed

text \<open>
  C10. When \<open>chat\<close> leaves its loop because the limit of 10 iterations is reached, it
  returns the empty text, whatever text came with the tool-call replies; every assistant message
  it appended carries tool calls, and the last message of the history is a tool message: no
  final assistant message is appended.
\<close>

theorem limit_exit_returns_empty_text:
  assumes "chat_loop env initial_vars (push (user_turn userMessage) s) = ((LimitReached, v), s')"
  shows "fst (chat env userMessage s) = Inr []
     \<and> conversationHistory (snd (chat env userMessage s)) = conversationHistory s'
     \<and> iteration v = 10
     \<and> (\<exists>added. conversationHistory s' = conversationHistory s @ user_turn userMessage # added
           \<and> added \<noteq> [] \<and> role (last added) = Tool
           \<and> (\<forall>m \<in> set added. role m = Tool \<or> (role m = Assistant \<and> tool_calls m \<noteq> None)))"
proof -
  from chat_loop_limit_reached [OF assms] obtain added where
    v: "finalResponse v = []" "maxIterations \<le> iteration v"
    and added: "conversationHistory s' = conversationHistory (push (user_turn userMessage) s) @ added"
      "\<forall>m \<in> set added. role m = Tool \<or> (role m = Assistant \<and> tool_calls m \<noteq> None)"
      "added \<noteq> []" "role (last added) = Tool"
    by (auto simp: initial_vars_def maxIterations_def)
  have "iteration v \<le> maxIterations"
    using chat_loop_iteration [OF assms] by (simp add: initial_vars_def)
  with v(2) have "iteration v = 10" by (simp add: maxIterations_def)
  moreover have "fst (chat env userMessage s) = Inr []"
    "conversationHistory (snd (chat env userMessage s)) = conversationHistory s'"
    using assms v(1) by (simp_all add: chat_def Let_def)
  moreover have "conversationHistory s' = conversationHistory s @ user_turn userMessage # added"
    using added(1) by simp
  ultimately show ?thesis using added(2,3,4) by blast
qed

theorem limit_exit_returns_empty_text_witness:
  "fst (fst (chat_loop (insistent_env (Text ''{}'')) initial_vars
         (push (user_turn ''Show me products'') (example_agent False)))) = LimitReached
   \<and> reply_text (insistent_backend (Text ''{}'') 9) = ''Let me look that up.''
   \<and> fst (chat (insistent_env (Text ''{}'')) ''Show me products'' (example_agent False)) = Inr []
   \<and> role (last (conversationHistory
        (snd (chat (insistent_env (Text ''{}'')) ''Show me products'' (example_agent False)))))
       = Tool"
proof -
  let ?loop = "chat_loop (insistent_env (Text ''{}'')) initial_vars
    (push (user_turn ''Show me products'') (example_agent False))"
  have l: "fst (fst ?loop) = LimitReached"
    using chat_loop_reaches_limit [OF insistent_always insistent_decode] by simp
  then have "?loop = ((LimitReached, snd (fst ?loop)), snd ?loop)"
    by (metis prod.collapse)
  from limit_exit_returns_empty_text [OF this] l show ?thesis
    by (auto simp: insistent_backend_def tool_reply_def reply_text_def user_turn_def)
qed

end
